theory Spec2Isabelle
  imports Complex_Main
begin

section \<open>Python values and builtins used by lambda_function.py\<close>

text \<open>
  Strings are lists of characters; a character stands for a code point below 256.
  Exceptions are values: a function that may raise returns \<open>py_error + 'a\<close>, with
  \<open>Inl\<close> for the exception. \<open>Exception m\<close> is the plain \<open>Exception\<close> with the
  message \<open>m\<close> that \<open>dispatch\<close> raises.
\<close>

datatype py_error = KeyError | ValueError | TypeError | OverflowError | Exception string

definition bnd :: "py_error + 'a \<Rightarrow> ('a \<Rightarrow> py_error + 'b) \<Rightarrow> py_error + 'b" where
  "bnd m f = (case m of Inl e \<Rightarrow> Inl e | Inr x \<Rightarrow> f x)"

text \<open>A Python number: an \<open>int\<close>, or a \<open>float\<close> carried as the exact rational that the
  double approximates (rounding of doubles is not modelled).\<close>

datatype pyval = VStr string | VInt int | VFloat rat

text \<open>\<open>str.lower()\<close> on code points below 256: A-Z, and the Latin-1 capitals
  192-222 except the multiplication sign 215, move up by 32. Bit 5 is clear in each
  of them, so adding 32 is setting that bit.\<close>

definition is_upper :: "char \<Rightarrow> bool" where
  "is_upper c =
     (let n = (of_char c :: nat)
      in (65 \<le> n \<and> n \<le> 90) \<or> (192 \<le> n \<and> n \<le> 222 \<and> n \<noteq> 215))"

definition lower_char :: "char \<Rightarrow> char" where
  "lower_char c =
     (if is_upper c
      then (case c of Char b0 b1 b2 b3 b4 b5 b6 b7 \<Rightarrow> Char b0 b1 b2 b3 b4 True b6 b7)
      else c)"

definition lower :: "string \<Rightarrow> string" where
  "lower s = map lower_char s"

definition is_digit :: "char \<Rightarrow> bool" where
  "is_digit c = (let n = (of_char c :: nat) in 48 \<le> n \<and> n \<le> 57)"

definition digit_val :: "char \<Rightarrow> nat" where
  "digit_val c = of_char c - 48"

text \<open>\<open>int(s)\<close> on a string, base 10: surrounding whitespace is dropped, then an
  optional sign, then decimal digits, where single underscores may separate digits.
  Anything else raises ValueError (\<open>None\<close> here).\<close>

definition is_int_space :: "char \<Rightarrow> bool" where
  "is_int_space c = (let n = (of_char c :: nat) in (9 \<le> n \<and> n \<le> 13) \<or> n = 32 \<or> n = 133 \<or> n = 160)"

fun py_digits :: "string \<Rightarrow> nat \<Rightarrow> nat option" where
  "py_digits [] acc = Some acc"
| "py_digits [c] acc = (if is_digit c then Some (10 * acc + digit_val c) else None)"
| "py_digits (c # d # r) acc =
     (if is_digit c then py_digits (d # r) (10 * acc + digit_val c)
      else if c = CHR ''_'' \<and> is_digit d then py_digits (d # r) acc
      else None)"

definition py_nat :: "string \<Rightarrow> nat option" where
  "py_nat s = (case s of [] \<Rightarrow> None | c # r \<Rightarrow> if is_digit c then py_digits s 0 else None)"

definition py_int :: "string \<Rightarrow> int option" where
  "py_int s =
     (let t = rev (dropWhile is_int_space (rev (dropWhile is_int_space s)))
      in case t of
           [] \<Rightarrow> None
         | c # r \<Rightarrow>
             if c = CHR ''-'' then map_option (\<lambda>n. - int n) (py_nat r)
             else if c = CHR ''+'' then map_option int (py_nat r)
             else map_option int (py_nat t))"

text \<open>\<open>str(n)\<close> for a natural number, and the same padded with zeros to two digits
  (the \<open>%m\<close> and \<open>%d\<close> of strftime).\<close>

definition digit_char :: "nat \<Rightarrow> char" where
  "digit_char n = ''0123456789'' ! (n mod 10)"

fun show_nat :: "nat \<Rightarrow> string" where
  "show_nat n = (if n < 10 then [digit_char n] else show_nat (n div 10) @ [digit_char n])"

declare show_nat.simps [simp del]

definition show_2 :: "nat \<Rightarrow> string" where
  "show_2 n = (if n < 10 then CHR ''0'' # show_nat n else show_nat n)"

section \<open>Calendar dates (datetime.date, datetime.datetime)\<close>

record date =
  year :: nat
  month :: nat
  day :: nat

definition is_leap :: "nat \<Rightarrow> bool" where
  "is_leap y = (y mod 4 = 0 \<and> (y mod 100 \<noteq> 0 \<or> y mod 400 = 0))"

definition days_in_month :: "nat \<Rightarrow> nat \<Rightarrow> nat" where
  "days_in_month y m =
     (if m = 2 then (if is_leap y then 29 else 28)
      else if m = 4 \<or> m = 6 \<or> m = 9 \<or> m = 11 then 30 else 31)"

definition days_before_year :: "nat \<Rightarrow> nat" where
  "days_before_year y = (let z = y - 1 in z * 365 + z div 4 - z div 100 + z div 400)"

definition days_before_month_tab :: "nat list" where
  "days_before_month_tab = [0, 0, 31, 59, 90, 120, 151, 181, 212, 243, 273, 304, 334]"

definition days_before_month :: "nat \<Rightarrow> nat \<Rightarrow> nat" where
  "days_before_month y m = days_before_month_tab ! m + (if m > 2 \<and> is_leap y then 1 else 0)"

text \<open>The constructor check of \<open>datetime.date\<close>: year 1..9999, month 1..12, day within the month.\<close>

definition valid_date :: "date \<Rightarrow> bool" where
  "valid_date d = (1 \<le> year d \<and> year d \<le> 9999 \<and> 1 \<le> month d \<and> month d \<le> 12
                   \<and> 1 \<le> day d \<and> day d \<le> days_in_month (year d) (month d))"

text \<open>\<open>date.toordinal()\<close>: 0001-01-01 is day 1.\<close>

definition toordinal :: "date \<Rightarrow> nat" where
  "toordinal d = days_before_year (year d) + days_before_month (year d) (month d) + day d"

definition max_ordinal :: nat where
  "max_ordinal = 3652059"

text \<open>\<open>date.fromordinal(n)\<close> for \<open>1 \<le> n \<le> max_ordinal\<close>, following \<open>_ord2ymd\<close> of
  the datetime module: cycles of 400, 100, 4 and 1 years, then the month estimated
  as \<open>(n + 50) >> 5\<close> and corrected.\<close>

definition fromordinal :: "nat \<Rightarrow> date" where
  "fromordinal n0 =
     (let n = n0 - 1;
          n400 = n div 146097; n = n mod 146097;
          n100 = n div 36524; n = n mod 36524;
          n4 = n div 1461; n = n mod 1461;
          n1 = n div 365; n = n mod 365;
          y = n400 * 400 + 1 + n100 * 100 + n4 * 4 + n1
      in if n1 = 4 \<or> n100 = 4 then \<lparr>year = y - 1, month = 12, day = 31\<rparr>
         else
           let leapyear = (n1 = 3 \<and> (n4 \<noteq> 24 \<or> n100 = 3));
               m = (n + 50) div 32;
               preceding = days_before_month_tab ! m + (if m > 2 \<and> leapyear then 1 else 0)
           in if preceding > n
              then let m' = m - 1;
                       preceding' = preceding -
                         ((if m' = 2 then 28 else if m' = 4 \<or> m' = 6 \<or> m' = 9 \<or> m' = 11 then 30 else 31)
                          + (if m' = 2 \<and> leapyear then 1 else 0))
                   in \<lparr>year = y, month = m', day = n - preceding' + 1\<rparr>
              else \<lparr>year = y, month = m, day = n - preceding + 1\<rparr>)"

text \<open>Dates compare as the triples (year, month, day).\<close>

definition date_le :: "date \<Rightarrow> date \<Rightarrow> bool" where
  "date_le a b = (year a < year b \<or> (year a = year b \<and>
                    (month a < month b \<or> (month a = month b \<and> day a \<le> day b))))"

text \<open>\<open>datetime.datetime.strptime(s, '%Y-%m-%d').date()\<close>. The format's regular
  expression takes exactly four digits for the year, a month written 1-9, 01-09 or
  10-12, and a day written 1-9, 01-09, 10-31 or a space and 1-9; the whole string has
  to be consumed, and the date has to exist. Every failure is a ValueError
  (\<open>None\<close> here).\<close>

definition month_field :: "string \<Rightarrow> nat option" where
  "month_field s =
     (case s of
        [a] \<Rightarrow> if is_digit a \<and> a \<noteq> CHR ''0'' then Some (digit_val a) else None
      | [a, b] \<Rightarrow>
          if a = CHR ''0'' \<and> is_digit b \<and> b \<noteq> CHR ''0'' then Some (digit_val b)
          else if a = CHR ''1'' \<and> (b = CHR ''0'' \<or> b = CHR ''1'' \<or> b = CHR ''2'') then Some (10 + digit_val b)
          else None
      | _ \<Rightarrow> None)"

definition day_field :: "string \<Rightarrow> nat option" where
  "day_field s =
     (case s of
        [a] \<Rightarrow> if is_digit a \<and> a \<noteq> CHR ''0'' then Some (digit_val a) else None
      | [a, b] \<Rightarrow>
          if a = CHR ''3'' \<and> (b = CHR ''0'' \<or> b = CHR ''1'') then Some (30 + digit_val b)
          else if (a = CHR ''1'' \<or> a = CHR ''2'') \<and> is_digit b then Some (10 * digit_val a + digit_val b)
          else if (a = CHR ''0'' \<or> a = CHR '' '') \<and> is_digit b \<and> b \<noteq> CHR ''0'' then Some (digit_val b)
          else None
      | _ \<Rightarrow> None)"

definition ymd_fields :: "char \<Rightarrow> string \<Rightarrow> date option" where
  "ymd_fields sep s =
     (case s of
        y1 # y2 # y3 # y4 # c # rest \<Rightarrow>
          if is_digit y1 \<and> is_digit y2 \<and> is_digit y3 \<and> is_digit y4 \<and> c = sep
          then (let ms = takeWhile (\<lambda>x. x \<noteq> sep) rest;
                    ds = drop (Suc (length ms)) rest
                in if length ms < length rest
                   then (case (month_field ms, day_field ds) of
                           (Some m, Some d) \<Rightarrow>
                             (let r = \<lparr>year = 1000 * digit_val y1 + 100 * digit_val y2
                                               + 10 * digit_val y3 + digit_val y4,
                                       month = m, day = d\<rparr>
                              in if valid_date r then Some r else None)
                         | _ \<Rightarrow> None)
                   else None)
          else None
      | _ \<Rightarrow> None)"

definition strptime_ymd :: "string \<Rightarrow> date option" where
  "strptime_ymd s = ymd_fields (CHR ''-'') s"

text \<open>\<open>d.strftime('%Y-%m-%d')\<close>, with the year unpadded below 1000 as glibc prints it.\<close>

definition strftime_ymd :: "date \<Rightarrow> string" where
  "strftime_ymd d = show_nat (year d) @ ''-'' @ show_2 (month d) @ ''-'' @ show_2 (day d)"

text \<open>What \<open>dateutil.parser.parse\<close> returns: a datetime, here its date, the time of
  day in microseconds, and the UTC offset in microseconds when the datetime is aware.\<close>

record datetime =
  dt_date :: date
  dt_time :: nat
  dt_offset :: "int option"

definition dt_micros :: "datetime \<Rightarrow> int" where
  "dt_micros t = int (toordinal (dt_date t)) * 86400000000 + int (dt_time t)"

text \<open>\<open>a >= b\<close> on datetimes: naive ones compare by their fields, aware ones by the
  instant, and a naive one against an aware one raises TypeError.\<close>

definition datetime_ge :: "datetime \<Rightarrow> datetime \<Rightarrow> py_error + bool" where
  "datetime_ge a b =
     (case (dt_offset a, dt_offset b) of
        (None, None) \<Rightarrow> Inr (dt_micros b \<le> dt_micros a)
      | (Some oa, Some ob) \<Rightarrow> Inr (dt_micros b - ob \<le> dt_micros a - oa)
      | _ \<Rightarrow> Inl TypeError)"

section \<open>The turn payload and the directives\<close>

text \<open>
  A slot of the payload is \<open>None\<close> (Python's None) or a value with its interpreted
  text. A slots dictionary maps a slot name to a slot; a name outside its domain is a
  missing key. The keys that the code itself treats as optional (\<open>activeContexts\<close>,
  \<open>sessionAttributes\<close>, the intent's \<open>state\<close>, and \<open>slots\<close> in the intent that
  \<open>initial_message\<close> builds) are options; \<open>None\<close> there is the absent key.
\<close>

record slot_value =
  shape :: string
  interpretedValue :: string
  originalValue :: string
  resolvedValues :: "string list"

type_synonym slot = "slot_value option"

type_synonym slots = "string \<rightharpoonup> slot"

record intent =
  name :: string
  state :: "string option"
  confirmationState :: string
  slots :: "slots option"

record time_to_live =
  timeToLiveInSeconds :: int
  turnsToLive :: int

record 'v active_context =
  ctx_name :: string
  contextAttributes :: "string \<rightharpoonup> 'v"
  timeToLive :: time_to_live

record session_state =
  activeContexts :: "string active_context list option"
  sessionAttributes :: "(string \<rightharpoonup> pyval) option"
  intent :: intent

record intent_request =
  sessionId :: string
  invocationSource :: string
  sessionState :: session_state

record message =
  contentType :: string
  content :: string

datatype dialog_action = ElicitSlot string | ConfirmIntent | Close | Delegate

text \<open>The returned dictionary: its \<open>sessionState\<close> entries, and the top-level
  \<open>messages\<close> list, which only \<open>close\<close> and \<open>delegate\<close> write.\<close>

record response =
  r_activeContexts :: "pyval active_context list option"
  r_sessionAttributes :: "(string \<rightharpoonup> pyval) option"
  dialogAction :: dialog_action
  r_intent :: intent
  messages :: "message list option"

text \<open>The two things the handler takes from outside the payload: the date parser
  \<open>dateutil.parser.parse\<close>, which returns a datetime or raises, and
  \<open>datetime.date.today()\<close>.\<close>

record env =
  parse :: "string \<Rightarrow> py_error + datetime"
  today :: date

subsection \<open>Helpers that build all of the responses\<close>

definition intentContext :: "(string \<rightharpoonup> pyval) \<Rightarrow> pyval active_context" where
  "intentContext active_contexts =
     \<lparr>ctx_name = ''intentContext'', contextAttributes = active_contexts,
      timeToLive = \<lparr>timeToLiveInSeconds = 600, turnsToLive = 1\<rparr>\<rparr>"

definition elicit_slot ::
  "(string \<rightharpoonup> pyval) \<Rightarrow> (string \<rightharpoonup> pyval) \<Rightarrow> intent \<Rightarrow> string \<Rightarrow> string \<Rightarrow> response" where
  "elicit_slot session_attributes active_contexts intent' slot_to_elicit message' =
     \<lparr>r_activeContexts = Some [intentContext active_contexts],
      r_sessionAttributes = Some session_attributes,
      dialogAction = ElicitSlot slot_to_elicit,
      r_intent = intent',
      messages = None\<rparr>"

definition confirm_intent ::
  "pyval active_context \<Rightarrow> (string \<rightharpoonup> pyval) \<Rightarrow> intent \<Rightarrow> string \<Rightarrow> response" where
  "confirm_intent active_contexts session_attributes intent' message' =
     \<lparr>r_activeContexts = Some [active_contexts],
      r_sessionAttributes = Some session_attributes,
      dialogAction = ConfirmIntent,
      r_intent = intent',
      messages = None\<rparr>"

definition close ::
  "(string \<rightharpoonup> pyval) \<Rightarrow> (string \<rightharpoonup> pyval) \<Rightarrow> string \<Rightarrow> intent \<Rightarrow> string \<Rightarrow> response" where
  "close session_attributes active_contexts fulfillment_state intent' message' =
     \<lparr>r_activeContexts = Some [intentContext active_contexts],
      r_sessionAttributes = Some session_attributes,
      dialogAction = Close,
      r_intent = intent',
      messages = Some [\<lparr>contentType = ''PlainText'', content = message'\<rparr>]\<rparr>"

definition delegate ::
  "(string \<rightharpoonup> pyval) \<Rightarrow> (string \<rightharpoonup> pyval) \<Rightarrow> intent \<Rightarrow> string \<Rightarrow> response" where
  "delegate session_attributes active_contexts intent' message' =
     \<lparr>r_activeContexts = Some [intentContext active_contexts],
      r_sessionAttributes = Some session_attributes,
      dialogAction = Delegate,
      r_intent = intent',
      messages = Some [\<lparr>contentType = ''PlainText'', content = message'\<rparr>]\<rparr>"

definition initial_message :: "string \<Rightarrow> response" where
  "initial_message intent_name =
     \<lparr>r_activeContexts = None,
      r_sessionAttributes = None,
      dialogAction = ElicitSlot (if intent_name = ''BookHotel'' then ''Location'' else ''PickUpCity''),
      r_intent = \<lparr>name = intent_name, state = Some ''InProgress'',
                  confirmationState = ''None'', slots = None\<rparr>,
      messages = None\<rparr>"

subsection \<open>Helper functions\<close>

text \<open>\<open>d[k]\<close> on a dictionary: KeyError when the key is missing.\<close>

definition getitem :: "('k \<rightharpoonup> 'v) \<Rightarrow> 'k \<Rightarrow> py_error + 'v" where
  "getitem d k = (case d k of None \<Rightarrow> Inl KeyError | Some v \<Rightarrow> Inr v)"

text \<open>Truth of an optional string in a condition: neither None nor empty.\<close>

definition truthy :: "string option \<Rightarrow> bool" where
  "truthy v = (case v of None \<Rightarrow> False | Some s \<Rightarrow> s \<noteq> [])"

definition str_of :: "string option \<Rightarrow> string" where
  "str_of v = (case v of None \<Rightarrow> [] | Some s \<Rightarrow> s)"

definition safe_int :: "string option \<Rightarrow> py_error + int option" where
  "safe_int n =
     (case n of
        None \<Rightarrow> Inr None
      | Some s \<Rightarrow> (case py_int s of None \<Rightarrow> Inl ValueError | Some i \<Rightarrow> Inr (Some i)))"

definition try_ex :: "slot \<Rightarrow> string option" where
  "try_ex v = (case v of None \<Rightarrow> None | Some sv \<Rightarrow> Some (interpretedValue sv))"

text \<open>\<open>xs.index(x)\<close>: the first position of \<open>x\<close>, ValueError (\<open>None\<close>) when absent.\<close>

fun index_of :: "'a list \<Rightarrow> 'a \<Rightarrow> nat option" where
  "index_of [] x = None"
| "index_of (y # ys) x = (if x = y then Some 0 else map_option Suc (index_of ys x))"

text \<open>The loop shared by both price functions: it adds
  \<open>ord(location.lower()[i]) - 97\<close> for every index of \<open>location\<close>
  (\<open>lower\<close> keeps the length).\<close>

fun location_cost :: "string \<Rightarrow> int" where
  "location_cost [] = 0"
| "location_cost (c # cs) = (int (of_char (lower_char c)) - 97) + location_cost cs"

definition car_types :: "string list" where
  "car_types = [''economy'', ''standard'', ''midsize'', ''full size'', ''minivan'', ''luxury'']"

text \<open>With \<open>age < 25\<close> the multiplier is the float 1.10 and the price a float; otherwise
  the multiplier is the int 1 and the price an int.\<close>

definition generate_car_price :: "string \<Rightarrow> int \<Rightarrow> int \<Rightarrow> string \<Rightarrow> py_error + pyval" where
  "generate_car_price location days age car_type =
     (let base_location_cost = location_cost location;
          car_type' = (if car_type \<notin> set car_types then car_types ! 0 else car_type)
      in case index_of car_types (lower car_type') of
           None \<Rightarrow> Inl ValueError
         | Some i \<Rightarrow>
             Inr (if age < 25
                  then VFloat (of_int days *
                         (of_int (100 + base_location_cost) + of_int (int i * 50) * (11 / 10)))
                  else VInt (days * ((100 + base_location_cost) + (int i * 50) * 1))))"

definition room_types :: "string list" where
  "room_types = [''queen'', ''king'', ''deluxe'']"

definition generate_hotel_price :: "string \<Rightarrow> int \<Rightarrow> string \<Rightarrow> py_error + int" where
  "generate_hotel_price location nights room_type =
     (let cost_of_living = location_cost location
      in case index_of room_types (lower room_type) of
           None \<Rightarrow> Inl ValueError
         | Some i \<Rightarrow> Inr (nights * (100 + cost_of_living + (100 + int i))))"

definition isvalid_car_type :: "string \<Rightarrow> bool" where
  "isvalid_car_type car_type =
     (lower car_type \<in> set [''economy'', ''standard'', ''midsize'', ''full size'', ''minivan'',
                              ''luxury'', ''economico'', ''mediano'', ''lujo''])"

definition valid_cities :: "string list" where
  "valid_cities =
     [''nueva york'', ''los angeles'', ''chicago'', ''houston'', ''philadelphia'', ''phoenix'',
      ''san antonio'', ''san diego'', ''dallas'', ''san jose'', ''austin'', ''jacksonville'',
      ''san francisco'', ''indianapolis'', ''columbus'', ''fort worth'', ''charlotte'', ''detroit'',
      ''el paso'', ''seattle'', ''denver'', ''washington dc'', ''memphis'', ''boston'', ''nashville'',
      ''baltimore'', ''portland'']"

definition isvalid_city :: "string \<Rightarrow> bool" where
  "isvalid_city city = (lower city \<in> set valid_cities)"

definition isvalid_room_type :: "string \<Rightarrow> bool" where
  "isvalid_room_type room_type = (lower room_type \<in> set room_types)"

text \<open>Only ValueError is caught; any other exception of the parser goes through.\<close>

definition isvalid_date :: "env \<Rightarrow> string \<Rightarrow> py_error + bool" where
  "isvalid_date E date' =
     (case parse E date' of
        Inr _ \<Rightarrow> Inr True
      | Inl ValueError \<Rightarrow> Inr False
      | Inl e \<Rightarrow> Inl e)"

definition get_day_difference :: "env \<Rightarrow> string \<Rightarrow> string \<Rightarrow> py_error + int" where
  "get_day_difference E later_date earlier_date =
     bnd (parse E later_date) (\<lambda>later_datetime.
     bnd (parse E earlier_date) (\<lambda>earlier_datetime.
       Inr \<bar>int (toordinal (dt_date later_datetime)) - int (toordinal (dt_date earlier_datetime))\<bar>))"

text \<open>Adding the timedelta raises OverflowError when the result leaves
  0001-01-01 .. 9999-12-31.\<close>

definition add_days :: "env \<Rightarrow> string \<Rightarrow> int \<Rightarrow> py_error + string" where
  "add_days E date' number_of_days =
     bnd (parse E date') (\<lambda>new_date.
       let k = int (toordinal (dt_date new_date)) + number_of_days
       in if 1 \<le> k \<and> k \<le> int max_ordinal
          then Inr (strftime_ymd (fromordinal (nat k)))
          else Inl OverflowError)"

record validation_result =
  isValid :: bool
  violatedSlot :: "string option"
  message :: "string option"

definition build_validation_result :: "bool \<Rightarrow> string \<Rightarrow> string \<Rightarrow> validation_result" where
  "build_validation_result isvalid violated_slot message_content =
     \<lparr>isValid = isvalid, violatedSlot = Some violated_slot, message = Some message_content\<rparr>"

subsection \<open>The slot-set validators\<close>

text \<open>
  A validator is a sequence of guarded returns. Each guard is a stage: it raises,
  returns a validation result (\<open>Some\<close>), or lets control fall to the next stage
  (\<open>None\<close>); \<open>first_return\<close> runs the stages in order, and returns
  \<open>{'isValid': True}\<close> when none of them returned.
\<close>

type_synonym stage = "py_error + validation_result option"

fun first_return :: "stage list \<Rightarrow> py_error + validation_result" where
  "first_return [] = Inr \<lparr>isValid = True, violatedSlot = None, message = None\<rparr>"
| "first_return (Inl e # ss) = Inl e"
| "first_return (Inr (Some v) # ss) = Inr v"
| "first_return (Inr None # ss) = first_return ss"

definition returns :: "bool \<Rightarrow> string \<Rightarrow> string \<Rightarrow> stage" where
  "returns isvalid violated_slot message_content =
     Inr (Some (build_validation_result isvalid violated_slot message_content))"

definition unsupported_city :: "string \<Rightarrow> string" where
  "unsupported_city city =
     ''We currently do not support '' @ city
       @ '' as a valid destination.  Can you try a different city?''"

text \<open>Lines 259-269 and 332-342: the date has to be accepted by the parser, and is
  then read again with \<open>strptime\<close> and compared with today.\<close>

definition date_stage :: "env \<Rightarrow> bool \<Rightarrow> string option \<Rightarrow> string \<Rightarrow> string \<Rightarrow> stage" where
  "date_stage E provided date_value slot_name not_understood =
     (if provided
      then bnd (isvalid_date E (str_of date_value)) (\<lambda>ok.
             if \<not> ok then returns False slot_name not_understood
             else (case strptime_ymd (str_of date_value) of
                     None \<Rightarrow> Inl ValueError
                   | Some d \<Rightarrow>
                       if date_le d (today E)
                       then returns False slot_name
                              ''Reservations must be scheduled at least one day in advance.  Can you try a different date?''
                       else Inr None))
      else returns False slot_name (''Elicit '' @ slot_name))"

text \<open>\<open>validate_book_car\<close>: lines 246-250 read the slots, lines 252-316 are the
  checks on what was read.\<close>

definition car_checks ::
  "env \<Rightarrow> string option \<Rightarrow> string option \<Rightarrow> string option \<Rightarrow> int option \<Rightarrow> string option
     \<Rightarrow> py_error + validation_result" where
  "car_checks E pickup_city pickup_date return_date driver_age car_type =
     first_return
       [if truthy pickup_city \<and> \<not> isvalid_city (str_of pickup_city)
        then returns False ''PickUpCity'' (unsupported_city (str_of pickup_city))
        else Inr None,
        date_stage E (truthy pickup_date) pickup_date ''PickUpDate''
          ''I did not understand your departure date.  When would you like to pick up your car rental?'',
        if truthy return_date
        then bnd (isvalid_date E (str_of return_date)) (\<lambda>ok.
               if \<not> ok
               then returns False ''ReturnDate''
                      ''I did not understand your return date.  When would you like to return your car rental?''
               else Inr None)
        else returns False ''ReturnDate'' ''Elicit ReturnDate'',
        if truthy pickup_date \<and> truthy return_date
        then bnd (parse E (str_of pickup_date)) (\<lambda>p.
             bnd (parse E (str_of return_date)) (\<lambda>r.
             bnd (datetime_ge p r) (\<lambda>ge.
               if ge
               then returns False ''ReturnDate''
                      ''Your return date must be after your pick up date.  Can you try a different return date?''
               else bnd (get_day_difference E (str_of pickup_date) (str_of return_date)) (\<lambda>n.
                      if n > 30
                      then returns False ''ReturnDate''
                             ''You can reserve a car for up to thirty days.  Can you try a different return date?''
                      else Inr None))))
        else Inr None,
        (case driver_age of
           Some age \<Rightarrow>
             if age < 18
             then returns False ''DriverAge''
                    ''Your driver must be at least eighteen to rent a car.  Can you provide the age of a different driver?''
             else Inr None
         | None \<Rightarrow> returns False ''DriverAge'' ''Elicit DriverAge''),
        if truthy car_type
        then if \<not> isvalid_car_type (str_of car_type)
             then returns False ''CarType''
                    (''I did not recognize that model.  What type of car would you like to rent?  ''
                     @ ''Popular cars are economy, midsize, or luxury'')
             else Inr None
        else returns False ''CarType'' ''Elicit CarType'']"

definition validate_book_car :: "env \<Rightarrow> slots \<Rightarrow> py_error + validation_result" where
  "validate_book_car E slots' =
     bnd (getitem slots' ''PickUpCity'') (\<lambda>s1.
     bnd (getitem slots' ''PickUpDate'') (\<lambda>s2.
     bnd (getitem slots' ''ReturnDate'') (\<lambda>s3.
     bnd (getitem slots' ''DriverAge'') (\<lambda>s4.
     bnd (safe_int (try_ex s4)) (\<lambda>driver_age.
     bnd (getitem slots' ''CarType'') (\<lambda>s5.
       car_checks E (try_ex s1) (try_ex s2) (try_ex s3) driver_age (try_ex s5)))))))"

text \<open>\<open>validate_hotel\<close>: lines 320-323 read the slots, lines 325-368 are the checks.\<close>

definition hotel_checks ::
  "env \<Rightarrow> string option \<Rightarrow> string option \<Rightarrow> int option \<Rightarrow> string option
     \<Rightarrow> py_error + validation_result" where
  "hotel_checks E location checkin_date nights room_type =
     first_return
       [if location \<noteq> None \<and> \<not> isvalid_city (str_of location)
        then returns False ''Location'' (unsupported_city (str_of location))
        else Inr None,
        date_stage E (checkin_date \<noteq> None) checkin_date ''CheckInDate''
          ''I did not understand your check in date.  When would you like to check in?'',
        (case nights of
           Some n \<Rightarrow>
             if n < 1 \<or> n > 30
             then returns False ''Nights''
                    ''You can make a reservations from one to thirty nights.  How many nights would you like to stay for?''
             else Inr None
         | None \<Rightarrow> returns False ''Nights'' ''Elicit Nights''),
        if room_type \<noteq> None
        then if \<not> isvalid_room_type (str_of room_type)
             then returns False ''RoomType''
                    ''I did not recognize that room type.  Would you like to stay in a queen, king, or deluxe room?''
             else Inr None
        else returns False ''RoomType'' ''Elicit RoomType'']"

definition validate_hotel :: "env \<Rightarrow> slots \<Rightarrow> py_error + validation_result" where
  "validate_hotel E slots' =
     bnd (getitem slots' ''Location'') (\<lambda>s1.
     bnd (getitem slots' ''CheckInDate'') (\<lambda>s2.
     bnd (getitem slots' ''Nights'') (\<lambda>s3.
     bnd (safe_int (try_ex s3)) (\<lambda>nights.
     bnd (getitem slots' ''RoomType'') (\<lambda>s4.
       hotel_checks E (try_ex s1) (try_ex s2) nights (try_ex s4))))))"

subsection \<open>Functions that control the bot's behavior\<close>

text \<open>
  A handler returns a directive, or Python's None when control falls off its end
  (\<open>Inr None\<close>). The intent of the payload is mutated in place and handed to the
  response builder, so the response carries the intent as changed. Logging is not
  modelled.
\<close>

definition get_slots :: "intent \<Rightarrow> py_error + slots" where
  "get_slots i = (case slots i of None \<Rightarrow> Inl KeyError | Some s \<Rightarrow> Inr s)"

definition hotel_success :: string where
  "hotel_success = ''Tu reservaci'' @ [char_of (243 :: nat)] @ ''n de hotel ha quedado registrada. ''
     @ [char_of (191 :: nat)] @ ''Te puedo ayudar con algo m'' @ [char_of (225 :: nat)] @ ''s?''"

definition car_success :: string where
  "car_success = ''Listo, tu reservaci'' @ [char_of (243 :: nat)] @ ''n est'' @ [char_of (225 :: nat)]
     @ '' completa. Ha sido un placer ayudarte. :D''"

text \<open>\<open>book_hotel\<close>, lines 407-443: the branch taken when the validator has passed.\<close>

definition hotel_reservation :: "intent_request \<Rightarrow> slots \<Rightarrow> py_error + response option" where
  "hotel_reservation intent_request slots' =
     (let intent' = intent (sessionState intent_request);
          session_attributes = [''sessionId'' \<mapsto> VStr (sessionId intent_request)];
          confirmation_status = confirmationState intent'
      in bnd (getitem slots' ''Location'') (\<lambda>s1.
         bnd (getitem slots' ''CheckInDate'') (\<lambda>s2.
         bnd (getitem slots' ''Nights'') (\<lambda>s3.
         bnd (safe_int (try_ex s3)) (\<lambda>nights.
         bnd (getitem slots' ''RoomType'') (\<lambda>s4.
           let location = try_ex s1; checkin_date = try_ex s2; room_type = try_ex s4
           in case nights of
                Some n \<Rightarrow>
                  if truthy location \<and> truthy checkin_date \<and> n \<noteq> 0 \<and> truthy room_type
                  then
                    let active_contexts =
                          [''ReservationType'' \<mapsto> VStr ''Hotel'',
                           ''Location'' \<mapsto> VStr (str_of location),
                           ''RoomType'' \<mapsto> VStr (str_of room_type),
                           ''CheckInDate'' \<mapsto> VStr (str_of checkin_date),
                           ''Nights'' \<mapsto> VInt n]
                    in bnd (generate_hotel_price (str_of location) n (str_of room_type)) (\<lambda>price.
                         let session_attributes =
                               session_attributes(''currentReservationPrice'' \<mapsto> VInt price)
                         in if confirmation_status = ''None''
                            then Inr (Some (delegate session_attributes active_contexts intent'
                                              ''Confirm hotel reservation''))
                            else if confirmation_status = ''Confirmed''
                            then Inr (Some (close session_attributes active_contexts ''Fulfilled''
                                              (intent'\<lparr>confirmationState := ''Confirmed'',
                                                        state := Some ''Fulfilled''\<rparr>)
                                              hotel_success))
                            else Inr None)
                  else Inr None
              | None \<Rightarrow> Inr None))))))"

definition book_hotel :: "env \<Rightarrow> intent_request \<Rightarrow> py_error + response option" where
  "book_hotel E intent_request =
     (let intent' = intent (sessionState intent_request);
          session_attributes = [''sessionId'' \<mapsto> VStr (sessionId intent_request)];
          active_contexts = Map.empty
      in bnd (get_slots intent') (\<lambda>slots'.
         bnd (validate_hotel E slots') (\<lambda>validation_result.
           if \<not> isValid validation_result
           then (case (violatedSlot validation_result, message validation_result) of
                   (Some violated, Some msg) \<Rightarrow>
                     Inr (Some (elicit_slot session_attributes active_contexts
                                  (intent'\<lparr>slots := Some (slots'(violated \<mapsto> None))\<rparr>) violated msg))
                 | _ \<Rightarrow> Inl KeyError)
           else hotel_reservation intent_request slots')))"

text \<open>\<open>book_car\<close>, lines 494-518: what follows the validation. (\<open>safe_int\<close> gives
  None only for None; an age of None would raise TypeError in \<open>age < 25\<close>.)\<close>

definition car_reservation ::
  "env \<Rightarrow> intent_request \<Rightarrow> (string \<rightharpoonup> pyval) \<Rightarrow> string option \<Rightarrow> string option \<Rightarrow> string option
     \<Rightarrow> string option \<Rightarrow> string option \<Rightarrow> py_error + response option" where
  "car_reservation E intent_request session_attributes pickup_city pickup_date return_date
       driver_age car_type =
     (let intent' = intent (sessionState intent_request);
          confirmation_status = confirmationState intent';
          active_contexts = Map.empty
      in if truthy pickup_city \<and> truthy pickup_date \<and> truthy return_date
            \<and> truthy driver_age \<and> truthy car_type
         then
           bnd (get_day_difference E (str_of pickup_date) (str_of return_date)) (\<lambda>days.
           bnd (safe_int driver_age) (\<lambda>age.
           bnd (case age of
                  Some a \<Rightarrow> generate_car_price (str_of pickup_city) days a (str_of car_type)
                | None \<Rightarrow> Inl TypeError) (\<lambda>price.
             let session_attributes =
                   session_attributes(''currentReservationPrice'' \<mapsto> price)
             in if confirmation_status = ''Denied''
                then Inr (Some (delegate session_attributes active_contexts intent'
                                  ''Confirm hotel reservation''))
                else if confirmation_status = ''None''
                then Inr (Some (delegate session_attributes active_contexts intent'
                                  ''Confirm hotel reservation''))
                else if confirmation_status = ''Confirmed''
                then Inr (Some (close session_attributes active_contexts ''Fulfilled''
                                  (intent'\<lparr>confirmationState := ''Confirmed'',
                                            state := Some ''Fulfilled''\<rparr>)
                                  car_success))
                else Inr None)))
         else Inr None)"

text \<open>In \<open>book_car\<close> the name \<open>slots\<close> keeps the dictionary read at the start. When a
  DriverAge violation is retargeted, \<open>intent['slots']\<close> is rebound to a new empty
  dictionary, and the None that is then stored goes into the old one: the intent of
  the response has no slots at all.\<close>

definition book_car :: "env \<Rightarrow> intent_request \<Rightarrow> py_error + response option" where
  "book_car E intent_request =
     (let intent' = intent (sessionState intent_request)
      in bnd (get_slots intent') (\<lambda>slots'.
         bnd (getitem slots' ''PickUpCity'') (\<lambda>s1.
         bnd (getitem slots' ''PickUpDate'') (\<lambda>s2.
         bnd (getitem slots' ''ReturnDate'') (\<lambda>s3.
         bnd (getitem slots' ''DriverAge'') (\<lambda>s4.
         bnd (getitem slots' ''CarType'') (\<lambda>s5.
           let pickup_city = try_ex s1; pickup_date = try_ex s2; return_date = try_ex s3;
               driver_age = try_ex s4; car_type = try_ex s5;
               confirmation_status = confirmationState intent';
               session_attributes =
                 (case sessionAttributes (sessionState intent_request) of
                    None \<Rightarrow> Map.empty | Some a \<Rightarrow> a);
               active_contexts = Map.empty
           in if invocationSource intent_request = ''DialogCodeHook''
              then bnd (validate_book_car E slots') (\<lambda>validation_result.
                     if \<not> isValid validation_result
                     then (case (violatedSlot validation_result, message validation_result) of
                             (Some violated, Some msg) \<Rightarrow>
                               if violated = ''DriverAge'' \<and> confirmation_status = ''Denied''
                               then Inr (Some (elicit_slot session_attributes active_contexts
                                                 (intent'\<lparr>slots := Some Map.empty\<rparr>)
                                                 ''PickUpCity'' msg))
                               else Inr (Some (elicit_slot session_attributes active_contexts
                                                 (intent'\<lparr>slots := Some (slots'(violated \<mapsto> None))\<rparr>)
                                                 violated msg))
                           | _ \<Rightarrow> Inl KeyError)
                     else car_reservation E intent_request session_attributes pickup_city
                            pickup_date return_date driver_age car_type)
              else car_reservation E intent_request session_attributes pickup_city
                     pickup_date return_date driver_age car_type)))))))"

subsection \<open>Intents\<close>

definition scalar_slot :: "string \<Rightarrow> slot" where
  "scalar_slot v =
     Some \<lparr>shape = ''Scalar'', interpretedValue = v, originalValue = v, resolvedValues = [v]\<rparr>"

text \<open>\<open>slots[k] if k in slots else None\<close>.\<close>

definition slot_or_none :: "slots \<Rightarrow> string \<Rightarrow> slot" where
  "slot_or_none slots' k = (case slots' k of None \<Rightarrow> None | Some v \<Rightarrow> v)"

definition dispatch :: "env \<Rightarrow> intent_request \<Rightarrow> py_error + response option" where
  "dispatch E intent_request =
     (let intent' = intent (sessionState intent_request)
      in bnd (get_slots intent') (\<lambda>slots'.
           let location = slot_or_none slots' ''Location'';
               pickup_city = slot_or_none slots' ''PickUpCity'';
               intent_name = name intent'
           in if location \<noteq> None \<or> pickup_city \<noteq> None
              then if intent_name = ''BookHotel'' then book_hotel E intent_request
                   else if intent_name = ''BookCar'' then book_car E intent_request
                   else Inl (Exception (''Intent with name '' @ intent_name @ '' not supported''))
              else
                (case activeContexts (sessionState intent_request) of
                   Some (active_contexts # others) \<Rightarrow>
                     bnd (case sessionAttributes (sessionState intent_request) of
                            None \<Rightarrow> Inl KeyError | Some a \<Rightarrow> Inr a) (\<lambda>session_attributes.
                     bnd (getitem (contextAttributes active_contexts) ''CheckInDate'') (\<lambda>checkin_date.
                     bnd (getitem (contextAttributes active_contexts) ''Nights'') (\<lambda>nights.
                     bnd (safe_int (Some nights)) (\<lambda>n.
                     bnd (case n of
                            Some k \<Rightarrow> add_days E checkin_date k
                          | None \<Rightarrow> Inl TypeError) (\<lambda>return_date.
                     bnd (getitem (contextAttributes active_contexts) ''Location'') (\<lambda>loc.
                       let active_contexts' =
                             \<lparr>ctx_name = ctx_name active_contexts,
                              contextAttributes = map_option VStr \<circ> contextAttributes active_contexts,
                              timeToLive = (timeToLive active_contexts)\<lparr>turnsToLive := 20\<rparr>\<rparr>;
                           slots'' =
                             [''PickUpCity'' \<mapsto> scalar_slot loc,
                              ''PickUpDate'' \<mapsto> scalar_slot checkin_date,
                              ''ReturnDate'' \<mapsto> scalar_slot return_date]
                       in Inr (Some (confirm_intent active_contexts' session_attributes
                                       (intent'\<lparr>slots := Some slots''\<rparr>)
                                       ''Indicame si la reservacion de auto es para {PickUpCity}, empezando {PickUpDate} y terminando {ReturnDate}''))))))))
                 | _ \<Rightarrow> Inr (Some (initial_message intent_name)))))"

subsection \<open>Main handler\<close>

definition lambda_handler :: "env \<Rightarrow> intent_request \<Rightarrow> py_error + response option" where
  "lambda_handler E event = dispatch E event"

section \<open>A date parser for the examples\<close>

text \<open>
  The theorems below hold for every date parser. The examples need one that
  computes: \<open>sample_parse\<close> reads the ten-character forms YYYY-MM-DD and YYYY/MM/DD
  of an existing date, as \<open>dateutil.parser.parse\<close> does, to a naive datetime at
  midnight, and raises ValueError on any other string.
\<close>

definition midnight :: "date \<Rightarrow> datetime" where
  "midnight d = \<lparr>dt_date = d, dt_time = 0, dt_offset = None\<rparr>"

definition sample_parse :: "string \<Rightarrow> py_error + datetime" where
  "sample_parse s =
     (if length s = 10 \<and> CHR '' '' \<notin> set s
      then (case ymd_fields (CHR ''-'') s of
              Some d \<Rightarrow> Inr (midnight d)
            | None \<Rightarrow> (case ymd_fields (CHR ''/'') s of
                         Some d \<Rightarrow> Inr (midnight d)
                       | None \<Rightarrow> Inl ValueError))
      else Inl ValueError)"

definition sample_env :: env where
  "sample_env = \<lparr>parse = sample_parse, today = \<lparr>year = 2024, month = 4, day = 30\<rparr>\<rparr>"

section \<open>Example payloads\<close>

definition example_request :: "string \<Rightarrow> string \<Rightarrow> string \<Rightarrow> slots \<Rightarrow> intent_request" where
  "example_request intent_name confirmation source slots' =
     \<lparr>sessionId = ''session-1'', invocationSource = source,
      sessionState =
        \<lparr>activeContexts = None,
         sessionAttributes = Some [''channel'' \<mapsto> VStr ''web''],
         intent = \<lparr>name = intent_name, state = Some ''InProgress'',
                   confirmationState = confirmation, slots = Some slots'\<rparr>\<rparr>\<rparr>"

definition hotel_slots :: "string \<Rightarrow> slots" where
  "hotel_slots checkin =
     [''Location'' \<mapsto> scalar_slot ''Chicago'', ''CheckInDate'' \<mapsto> scalar_slot checkin,
      ''Nights'' \<mapsto> scalar_slot ''3'', ''RoomType'' \<mapsto> scalar_slot ''King'']"

definition car_slots :: "string \<Rightarrow> string \<Rightarrow> string \<Rightarrow> string \<Rightarrow> slots" where
  "car_slots city pickup return' age =
     [''PickUpCity'' \<mapsto> scalar_slot city, ''PickUpDate'' \<mapsto> scalar_slot pickup,
      ''ReturnDate'' \<mapsto> scalar_slot return', ''DriverAge'' \<mapsto> scalar_slot age,
      ''CarType'' \<mapsto> scalar_slot ''economy'']"

text \<open>A turn with active contexts: the context that a finished hotel booking leaves
  behind, and one without attributes, as the handlers' own directives carry.\<close>

definition with_contexts :: "string active_context list \<Rightarrow> intent_request \<Rightarrow> intent_request" where
  "with_contexts cs req = req\<lparr>sessionState := (sessionState req)\<lparr>activeContexts := Some cs\<rparr>\<rparr>"

definition boston_context :: "string active_context" where
  "boston_context =
     \<lparr>ctx_name = ''intentContext'',
      contextAttributes = [''Location'' \<mapsto> ''Boston'', ''CheckInDate'' \<mapsto> ''2024-05-01'',
                           ''Nights'' \<mapsto> ''4''],
      timeToLive = \<lparr>timeToLiveInSeconds = 600, turnsToLive = 1\<rparr>\<rparr>"

definition empty_context :: "string active_context" where
  "empty_context =
     \<lparr>ctx_name = ''intentContext'', contextAttributes = Map.empty,
      timeToLive = \<lparr>timeToLiveInSeconds = 600, turnsToLive = 1\<rparr>\<rparr>"

text \<open>The directive of a handler's result, the messages of its response, and the
  violated slot of a validator's result.\<close>

definition messages_of :: "py_error + response option \<Rightarrow> py_error + message list option option" where
  "messages_of res = map_sum id (map_option messages) res"


definition directive_of :: "py_error + response option \<Rightarrow> py_error + dialog_action option" where
  "directive_of res = map_sum id (map_option dialogAction) res"

definition violated_of :: "py_error + validation_result \<Rightarrow> py_error + string option" where
  "violated_of res = map_sum id violatedSlot res"

section \<open>The specification's wording\<close>

text \<open>
  Notions that the specification uses and the code does not define as such,
  each written after the specification's words: the day after a date ("tomorrow"),
  the location digest ("sums (lowercased character code - 'a' code) over all
  characters"), and the hotel price ("nights x (100 + location_digest(location) + 100 +
  room_type_rank)", the rank being "the 0-based index of room_type within its
  enumeration"; there is no price for a room type outside the enumeration), and the
  rank of a car type ("the 0-based index of car_type (case-insensitive) within the base
  6-element enumeration (defaulting to 0 if absent").
\<close>

definition tomorrow :: "date \<Rightarrow> date" where
  "tomorrow t =
     (if day t < days_in_month (year t) (month t) then t\<lparr>day := day t + 1\<rparr>
      else if month t < 12 then t\<lparr>month := month t + 1, day := 1\<rparr>
      else \<lparr>year = year t + 1, month = 1, day = 1\<rparr>)"

definition location_digest_spec :: "string \<Rightarrow> int" where
  "location_digest_spec location =
     sum_list (map (\<lambda>c. int (of_char (lower_char c)) - int (of_char (CHR ''a''))) location)"

definition car_type_rank_spec :: "string \<Rightarrow> nat" where
  "car_type_rank_spec car_type =
     (case index_of car_types (lower car_type) of Some i \<Rightarrow> i | None \<Rightarrow> 0)"

definition hotel_price_spec :: "string \<Rightarrow> int \<Rightarrow> string \<Rightarrow> int option" where
  "hotel_price_spec location nights room_type =
     map_option
       (\<lambda>room_type_rank. nights * (100 + location_digest_spec location + 100 + int room_type_rank))
       (index_of room_types (lower room_type))"

section \<open>Proof notions\<close>

text \<open>A stage is in order when whatever it returns is a failure that names a slot
  and has a message.\<close>

definition stage_ok :: "stage \<Rightarrow> bool" where
  "stage_ok s =
     (case s of
        Inr (Some v) \<Rightarrow> \<not> isValid v \<and> violatedSlot v \<noteq> None \<and> message v \<noteq> None
      | _ \<Rightarrow> True)"

section \<open>Basic facts\<close>

lemma bnd_Inr [simp]: "bnd (Inr x) f = f x"
  by (simp add: bnd_def)

lemma bnd_Inl [simp]: "bnd (Inl e) f = Inl e"
  by (simp add: bnd_def)

lemma bnd_Inr_iff: "bnd m f = Inr y \<longleftrightarrow> (\<exists>x. m = Inr x \<and> f x = Inr y)"
  by (cases m) simp_all

lemma getitem_Inr_iff: "getitem d k = Inr v \<longleftrightarrow> d k = Some v"
  by (simp add: getitem_def split: option.splits)

lemma getitem_Some [simp]: "d k = Some v \<Longrightarrow> getitem d k = Inr v"
  by (simp add: getitem_def)

lemma truthy_Some [simp]: "truthy (Some s) \<longleftrightarrow> s \<noteq> []"
  by (simp add: truthy_def)

lemma truthy_None [simp]: "\<not> truthy None"
  by (simp add: truthy_def)

lemma str_of_Some [simp]: "str_of (Some s) = s"
  by (simp add: str_of_def)

lemma try_ex_None_iff: "try_ex s = None \<longleftrightarrow> s = None"
  by (simp add: try_ex_def split: option.splits)

lemma returns_eq:
  "returns b a m = Inr (Some \<lparr>isValid = b, violatedSlot = Some a, message = Some m\<rparr>)"
  by (simp add: returns_def build_validation_result_def)

text \<open>Evaluation of the model on concrete payloads unfolds these definitions.\<close>

lemmas string_defs = lower_def lower_char_def is_upper_def is_digit_def digit_val_def
  is_int_space_def py_int_def py_nat_def

lemmas date_defs = strptime_ymd_def ymd_fields_def month_field_def day_field_def
  valid_date_def days_in_month_def is_leap_def date_le_def

lemmas sample_defs = sample_env_def sample_parse_def midnight_def example_request_def
  hotel_slots_def car_slots_def scalar_slot_def

lemmas check_defs = truthy_def str_of_def safe_int_def try_ex_def getitem_def
  build_validation_result_def date_stage_def isvalid_date_def
  isvalid_city_def valid_cities_def isvalid_room_type_def room_types_def
  isvalid_car_type_def car_types_def

lemmas ordinal_defs = toordinal_def days_before_year_def days_before_month_def
  days_before_month_tab_def datetime_ge_def dt_micros_def get_day_difference_def

subsection \<open>Strings, dates, prices\<close>

lemma isvalid_city_nonempty: "isvalid_city s \<Longrightarrow> s \<noteq> []"
  by (auto simp: isvalid_city_def valid_cities_def lower_def)

lemma isvalid_room_type_index:
  "isvalid_room_type s \<Longrightarrow> s \<noteq> [] \<and> (\<exists>i. index_of room_types (lower s) = Some i)"
  by (auto simp: isvalid_room_type_def room_types_def lower_def)

lemma strptime_ymd_nonempty: "strptime_ymd s = Some d \<Longrightarrow> s \<noteq> []"
  by (auto simp: strptime_ymd_def ymd_fields_def)

lemma tomorrow_after: "\<not> date_le (tomorrow t) t"
  by (simp add: tomorrow_def date_le_def)

lemma location_cost_digest: "location_cost s = location_digest_spec s"
  by (induction s) (simp_all add: location_digest_spec_def)

lemma generate_hotel_price_spec:
  "generate_hotel_price location nights room_type =
     (case hotel_price_spec location nights room_type of
        None \<Rightarrow> Inl ValueError
      | Some p \<Rightarrow> Inr p)"
  by (simp add: generate_hotel_price_def hotel_price_spec_def location_cost_digest
           split: option.splits)

text \<open>A car type outside the base enumeration, as written, is priced as 'economy'.\<close>

lemma generate_car_price_unrecognized:
  "car_type \<notin> set car_types \<Longrightarrow>
     generate_car_price location days age car_type = generate_car_price location days age ''economy''"
  by (simp add: generate_car_price_def car_types_def)

lemma lower_Chicago: "lower ''Chicago'' = ''chicago''"
  by (simp add: lower_def lower_char_def is_upper_def)

lemma lower_King: "lower ''King'' = ''king''"
  by (simp add: lower_def lower_char_def is_upper_def)

lemma hotel_price_Chicago: "hotel_price_spec ''Chicago'' 3 ''King'' = Some 720"
  by (simp add: hotel_price_spec_def lower_King room_types_def location_digest_spec_def
        lower_char_def is_upper_def)

subsection \<open>The stages of a validator\<close>

lemma isvalid_date_True: "isvalid_date E s = Inr True \<longleftrightarrow> (\<exists>dt. parse E s = Inr dt)"
  by (auto simp: isvalid_date_def split: sum.splits py_error.splits)

lemma date_stage_None:
  "date_stage E b v nm msg = Inr None \<longleftrightarrow>
     b \<and> (\<exists>dt. parse E (str_of v) = Inr dt)
       \<and> (\<exists>d. strptime_ymd (str_of v) = Some d \<and> \<not> date_le d (today E))"
  by (auto simp: date_stage_def returns_eq bnd_Inr_iff isvalid_date_True[symmetric] bnd_def
           split: if_splits option.splits sum.splits)

lemma date_stage_Some:
  "date_stage E b v nm msg = Inr (Some r) \<Longrightarrow>
     \<not> isValid r \<and> violatedSlot r = Some nm \<and> message r \<noteq> None"
  by (auto simp: date_stage_def returns_eq bnd_def split: if_splits option.splits sum.splits)

lemma stage_ok_simps [simp]:
  "stage_ok (Inr None)" "stage_ok (Inl e)" "stage_ok (returns False a m)"
  by (simp_all add: stage_ok_def returns_eq)

lemma stage_ok_bnd: "(\<And>x. stage_ok (f x)) \<Longrightarrow> stage_ok (bnd m f)"
  by (cases m) simp_all

lemma stage_ok_date_stage [simp]: "stage_ok (date_stage E b v nm msg)"
  by (simp add: date_stage_def stage_ok_bnd split: option.split)

lemma first_return_ok:
  assumes "first_return ss = Inr vr" and "list_all stage_ok ss"
  shows "(isValid vr \<and> list_all (\<lambda>s. s = Inr None) ss)
       \<or> (\<not> isValid vr \<and> violatedSlot vr \<noteq> None \<and> message vr \<noteq> None)"
  using assms by (induction ss rule: first_return.induct) (auto simp: stage_ok_def)

subsection \<open>The hotel validator and handler\<close>

lemma hotel_checks_shape:
  assumes "hotel_checks E loc cid nights rt = Inr vr"
  shows "(isValid vr
          \<and> (loc = None \<or> isvalid_city (str_of loc))
          \<and> date_stage E (cid \<noteq> None) cid ''CheckInDate''
               ''I did not understand your check in date.  When would you like to check in?'' = Inr None
          \<and> (\<exists>n. nights = Some n \<and> 1 \<le> n \<and> n \<le> 30)
          \<and> rt \<noteq> None \<and> isvalid_room_type (str_of rt))
       \<or> (\<not> isValid vr \<and> violatedSlot vr \<noteq> None \<and> message vr \<noteq> None)"
proof -
  let ?ss = "[if loc \<noteq> None \<and> \<not> isvalid_city (str_of loc)
        then returns False ''Location'' (unsupported_city (str_of loc))
        else Inr None,
        date_stage E (cid \<noteq> None) cid ''CheckInDate''
          ''I did not understand your check in date.  When would you like to check in?'',
        (case nights of
           Some n \<Rightarrow>
             if n < 1 \<or> n > 30
             then returns False ''Nights''
                    ''You can make a reservations from one to thirty nights.  How many nights would you like to stay for?''
             else Inr None
         | None \<Rightarrow> returns False ''Nights'' ''Elicit Nights''),
        if rt \<noteq> None
        then if \<not> isvalid_room_type (str_of rt)
             then returns False ''RoomType''
                    ''I did not recognize that room type.  Would you like to stay in a queen, king, or deluxe room?''
             else Inr None
        else returns False ''RoomType'' ''Elicit RoomType'']"
  have fr: "first_return ?ss = Inr vr"
    using assms by (simp add: hotel_checks_def)
  have ok: "list_all stage_ok ?ss"
    by (simp split: option.split)
  from first_return_ok [OF fr ok] show ?thesis
    by (auto simp: returns_eq split: if_splits option.splits)
qed

lemma validate_hotel_Inr:
  "validate_hotel E sl = Inr vr \<longleftrightarrow>
     (\<exists>s1 s2 s3 nights s4. sl ''Location'' = Some s1 \<and> sl ''CheckInDate'' = Some s2
        \<and> sl ''Nights'' = Some s3 \<and> safe_int (try_ex s3) = Inr nights \<and> sl ''RoomType'' = Some s4
        \<and> hotel_checks E (try_ex s1) (try_ex s2) nights (try_ex s4) = Inr vr)"
  by (simp add: validate_hotel_def bnd_Inr_iff getitem_Inr_iff)

lemma validate_hotel_valid:
  assumes "validate_hotel E sl = Inr vr" and "isValid vr"
  obtains s1 s2 s3 s4 n i where
    "sl ''Location'' = Some s1" and "sl ''CheckInDate'' = Some s2"
    and "sl ''Nights'' = Some s3" and "sl ''RoomType'' = Some s4"
    and "safe_int (try_ex s3) = Inr (Some n)" and "1 \<le> n" and "n \<le> 30"
    and "s1 = None \<or> isvalid_city (str_of (try_ex s1))"
    and "truthy (try_ex s2)" and "truthy (try_ex s4)"
    and "index_of room_types (lower (str_of (try_ex s4))) = Some i"
proof -
  from assms(1) obtain s1 s2 s3 nights s4 where
    k: "sl ''Location'' = Some s1" "sl ''CheckInDate'' = Some s2" "sl ''Nights'' = Some s3"
       "safe_int (try_ex s3) = Inr nights" "sl ''RoomType'' = Some s4"
    and hc: "hotel_checks E (try_ex s1) (try_ex s2) nights (try_ex s4) = Inr vr"
    unfolding validate_hotel_Inr by blast
  from hotel_checks_shape [OF hc] assms(2) have
    c: "try_ex s1 = None \<or> isvalid_city (str_of (try_ex s1))"
    and d: "date_stage E (try_ex s2 \<noteq> None) (try_ex s2) ''CheckInDate''
               ''I did not understand your check in date.  When would you like to check in?'' = Inr None"
    and n: "\<exists>n. nights = Some n \<and> 1 \<le> n \<and> n \<le> 30"
    and r: "try_ex s4 \<noteq> None" "isvalid_room_type (str_of (try_ex s4))"
    by auto
  from n obtain n where n': "nights = Some n" "1 \<le> n" "n \<le> 30" by blast
  from d have "try_ex s2 \<noteq> None" and "str_of (try_ex s2) \<noteq> []"
    by (auto simp: date_stage_None dest: strptime_ymd_nonempty)
  then have t2: "truthy (try_ex s2)"
    by (auto simp: truthy_def str_of_def split: option.splits)
  from r isvalid_room_type_index [OF r(2)] obtain i where
    t4: "truthy (try_ex s4)" and i: "index_of room_types (lower (str_of (try_ex s4))) = Some i"
    by (auto simp: truthy_def str_of_def split: option.splits)
  from c have c': "s1 = None \<or> isvalid_city (str_of (try_ex s1))"
    by (simp add: try_ex_None_iff)
  show thesis
    using that [OF k(1,2,3,5) _ n'(2,3) c' t2 t4 i] k(4) n'(1) by simp
qed

text \<open>What \<open>book_hotel\<close> returns once the validator has passed and all four values
  are there.\<close>

lemma book_hotel_priced:
  assumes "slots (intent (sessionState req)) = Some sl"
    and "validate_hotel E sl = Inr vr" and "isValid vr"
    and "sl ''Location'' = Some s1" and "sl ''CheckInDate'' = Some s2"
    and "sl ''Nights'' = Some s3" and "sl ''RoomType'' = Some s4"
    and "safe_int (try_ex s3) = Inr (Some n)" and "n \<noteq> 0"
    and "truthy (try_ex s1)" and "truthy (try_ex s2)" and "truthy (try_ex s4)"
    and "generate_hotel_price (str_of (try_ex s1)) n (str_of (try_ex s4)) = Inr p"
  shows "book_hotel E req =
     (let session_attributes = [''sessionId'' \<mapsto> VStr (sessionId req),
                                ''currentReservationPrice'' \<mapsto> VInt p];
          active_contexts = [''ReservationType'' \<mapsto> VStr ''Hotel'',
                             ''Location'' \<mapsto> VStr (str_of (try_ex s1)),
                             ''RoomType'' \<mapsto> VStr (str_of (try_ex s4)),
                             ''CheckInDate'' \<mapsto> VStr (str_of (try_ex s2)),
                             ''Nights'' \<mapsto> VInt n];
          intent' = intent (sessionState req)
      in if confirmationState intent' = ''None''
         then Inr (Some (delegate session_attributes active_contexts intent' ''Confirm hotel reservation''))
         else if confirmationState intent' = ''Confirmed''
         then Inr (Some (close session_attributes active_contexts ''Fulfilled''
                           (intent'\<lparr>confirmationState := ''Confirmed'', state := Some ''Fulfilled''\<rparr>)
                           hotel_success))
         else Inr None)"
  using assms by (simp add: book_hotel_def hotel_reservation_def get_slots_def Let_def)

subsection \<open>The car validator\<close>

lemma validate_book_car_Inr:
  "validate_book_car E sl = Inr vr \<longleftrightarrow>
     (\<exists>s1 s2 s3 s4 driver_age s5. sl ''PickUpCity'' = Some s1 \<and> sl ''PickUpDate'' = Some s2
        \<and> sl ''ReturnDate'' = Some s3 \<and> sl ''DriverAge'' = Some s4
        \<and> safe_int (try_ex s4) = Inr driver_age \<and> sl ''CarType'' = Some s5
        \<and> car_checks E (try_ex s1) (try_ex s2) (try_ex s3) driver_age (try_ex s5) = Inr vr)"
  by (simp add: validate_book_car_def bnd_Inr_iff getitem_Inr_iff)

lemma get_day_difference_Inr:
  "parse E a = Inr p \<Longrightarrow> parse E b = Inr r \<Longrightarrow>
     get_day_difference E a b = Inr \<bar>int (toordinal (dt_date p)) - int (toordinal (dt_date r))\<bar>"
  by (simp add: get_day_difference_def)

lemma car_checks_invalid:
  assumes "car_checks E city pd rd age ct = Inr vr" and "\<not> isValid vr"
  shows "violatedSlot vr \<noteq> None \<and> message vr \<noteq> None"
proof -
  have ok4: "stage_ok (bnd (parse E (str_of pd)) (\<lambda>p.
             bnd (parse E (str_of rd)) (\<lambda>r.
             bnd (datetime_ge p r) (\<lambda>ge.
               if ge
               then returns False ''ReturnDate''
                      ''Your return date must be after your pick up date.  Can you try a different return date?''
               else bnd (get_day_difference E (str_of pd) (str_of rd)) (\<lambda>n.
                      if n > 30
                      then returns False ''ReturnDate''
                             ''You can reserve a car for up to thirty days.  Can you try a different return date?''
                      else Inr None)))))"
    by (intro stage_ok_bnd) (simp add: stage_ok_bnd)
  have ok3: "stage_ok (bnd (isvalid_date E (str_of rd)) (\<lambda>ok.
               if \<not> ok
               then returns False ''ReturnDate''
                      ''I did not understand your return date.  When would you like to return your car rental?''
               else Inr None))"
    by (intro stage_ok_bnd) simp
  from assms(1) ok3 ok4 have
    "(isValid vr \<and> True) \<or> (\<not> isValid vr \<and> violatedSlot vr \<noteq> None \<and> message vr \<noteq> None)"
    unfolding car_checks_def
    by (elim first_return_ok [THEN disjE]) (simp_all split: option.split)
  with assms(2) show ?thesis by simp
qed

subsection \<open>The handlers\<close>

lemma hotel_reservation_attrs:
  assumes "hotel_reservation req sl = Inr (Some r)"
  shows "\<exists>p. r_sessionAttributes r =
                Some [''sessionId'' \<mapsto> VStr (sessionId req),
                      ''currentReservationPrice'' \<mapsto> VInt p]
            \<and> (dialogAction r = Delegate \<or> dialogAction r = Close)"
  using assms
  by (auto simp: hotel_reservation_def bnd_def getitem_def Let_def delegate_def close_def
           split: sum.splits option.splits if_splits)

lemma car_reservation_attrs:
  assumes "car_reservation E req sa pc pd rd da ct = Inr (Some r)"
  shows "\<exists>p. r_sessionAttributes r = Some (sa(''currentReservationPrice'' \<mapsto> p))
            \<and> (dialogAction r = Delegate \<or> dialogAction r = Close)"
  using assms
  by (auto simp: car_reservation_def bnd_def Let_def delegate_def close_def
           split: sum.splits option.splits if_splits)

lemma book_hotel_eq:
  assumes "slots (intent (sessionState req)) = Some sl" and "validate_hotel E sl = Inr vr"
  shows "book_hotel E req =
     (if \<not> isValid vr
      then (case (violatedSlot vr, message vr) of
              (Some v, Some m) \<Rightarrow>
                Inr (Some (elicit_slot [''sessionId'' \<mapsto> VStr (sessionId req)] Map.empty
                             ((intent (sessionState req))\<lparr>slots := Some (sl(v \<mapsto> None))\<rparr>) v m))
            | _ \<Rightarrow> Inl KeyError)
      else hotel_reservation req sl)"
  using assms by (simp add: book_hotel_def get_slots_def)

lemma book_hotel_Inr_D:
  assumes "book_hotel E req = Inr x"
  obtains sl vr where "slots (intent (sessionState req)) = Some sl" and "validate_hotel E sl = Inr vr"
proof -
  obtain sl where sl: "slots (intent (sessionState req)) = Some sl"
    using assms by (cases "slots (intent (sessionState req))") (simp_all add: book_hotel_def get_slots_def)
  obtain vr where "validate_hotel E sl = Inr vr"
    using assms sl by (cases "validate_hotel E sl") (simp_all add: book_hotel_def get_slots_def)
  with sl that show thesis by blast
qed

lemma book_car_eq:
  assumes "slots (intent (sessionState req)) = Some sl"
    and "sl ''PickUpCity'' = Some s1" and "sl ''PickUpDate'' = Some s2"
    and "sl ''ReturnDate'' = Some s3" and "sl ''DriverAge'' = Some s4" and "sl ''CarType'' = Some s5"
  shows "book_car E req =
     (let sa = (case sessionAttributes (sessionState req) of None \<Rightarrow> Map.empty | Some a \<Rightarrow> a);
          reservation = car_reservation E req sa (try_ex s1) (try_ex s2) (try_ex s3)
                          (try_ex s4) (try_ex s5)
      in if invocationSource req = ''DialogCodeHook''
         then bnd (validate_book_car E sl) (\<lambda>vr.
                if \<not> isValid vr
                then (case (violatedSlot vr, message vr) of
                        (Some v, Some m) \<Rightarrow>
                          if v = ''DriverAge'' \<and> confirmationState (intent (sessionState req)) = ''Denied''
                          then Inr (Some (elicit_slot sa Map.empty
                                            ((intent (sessionState req))\<lparr>slots := Some Map.empty\<rparr>)
                                            ''PickUpCity'' m))
                          else Inr (Some (elicit_slot sa Map.empty
                                            ((intent (sessionState req))\<lparr>slots := Some (sl(v \<mapsto> None))\<rparr>)
                                            v m))
                      | _ \<Rightarrow> Inl KeyError)
                else reservation)
         else reservation)"
  using assms by (simp add: book_car_def get_slots_def Let_def)

lemma book_car_Inr_D:
  assumes "book_car E req = Inr x"
  obtains sl s1 s2 s3 s4 s5 where "slots (intent (sessionState req)) = Some sl"
    and "sl ''PickUpCity'' = Some s1" and "sl ''PickUpDate'' = Some s2"
    and "sl ''ReturnDate'' = Some s3" and "sl ''DriverAge'' = Some s4" and "sl ''CarType'' = Some s5"
proof -
  obtain sl where sl: "slots (intent (sessionState req)) = Some sl"
    using assms by (cases "slots (intent (sessionState req))") (simp_all add: book_car_def get_slots_def)
  obtain s1 where s1: "sl ''PickUpCity'' = Some s1"
    using assms sl by (cases "sl ''PickUpCity''") (simp_all add: book_car_def get_slots_def getitem_def)
  obtain s2 where s2: "sl ''PickUpDate'' = Some s2"
    using assms sl s1 by (cases "sl ''PickUpDate''") (simp_all add: book_car_def get_slots_def getitem_def)
  obtain s3 where s3: "sl ''ReturnDate'' = Some s3"
    using assms sl s1 s2 by (cases "sl ''ReturnDate''") (simp_all add: book_car_def get_slots_def getitem_def)
  obtain s4 where s4: "sl ''DriverAge'' = Some s4"
    using assms sl s1 s2 s3 by (cases "sl ''DriverAge''") (simp_all add: book_car_def get_slots_def getitem_def)
  obtain s5 where s5: "sl ''CarType'' = Some s5"
    using assms sl s1 s2 s3 s4 by (cases "sl ''CarType''") (simp_all add: book_car_def get_slots_def getitem_def)
  from that [OF sl s1 s2 s3 s4 s5] show thesis .
qed


lemma validate_hotel_invalid:
  assumes "validate_hotel E sl = Inr vr" and "\<not> isValid vr"
  obtains v m where "violatedSlot vr = Some v" and "message vr = Some m"
proof -
  from assms(1) obtain s1 s2 nights s4 where
    "hotel_checks E (try_ex s1) (try_ex s2) nights (try_ex s4) = Inr vr"
    unfolding validate_hotel_Inr by blast
  from hotel_checks_shape [OF this] assms(2) that show thesis
    by auto
qed

lemma validate_book_car_invalid:
  assumes "validate_book_car E sl = Inr vr" and "\<not> isValid vr"
  obtains v m where "violatedSlot vr = Some v" and "message vr = Some m"
proof -
  from assms(1) obtain s1 s2 s3 age s5 where
    "car_checks E (try_ex s1) (try_ex s2) (try_ex s3) age (try_ex s5) = Inr vr"
    unfolding validate_book_car_Inr by blast
  from car_checks_invalid [OF this assms(2)] that show thesis
    by auto
qed

subsection \<open>Examples\<close>

lemma validate_hotel_sample:
  "validate_hotel sample_env (hotel_slots ''2024-05-01'')
     = Inr \<lparr>isValid = True, violatedSlot = None, message = None\<rparr>"
  by (simp add: validate_hotel_def hotel_checks_def returns_eq sample_defs check_defs string_defs date_defs)

lemma validate_book_car_sample_17:
  "validate_book_car sample_env (car_slots ''Boston'' ''2024-05-02'' ''2024-05-05'' ''17'')
     = Inr (build_validation_result False ''DriverAge''
              ''Your driver must be at least eighteen to rent a car.  Can you provide the age of a different driver?'')"
  by (simp add: validate_book_car_def car_checks_def returns_eq sample_defs check_defs string_defs
        date_defs ordinal_defs)

lemma validate_hotel_sample_today:
  "validate_hotel sample_env (hotel_slots ''2024-04-30'')
     = Inr (build_validation_result False ''CheckInDate''
              ''Reservations must be scheduled at least one day in advance.  Can you try a different date?'')"
  by (simp add: validate_hotel_def hotel_checks_def returns_eq sample_defs check_defs string_defs
        date_defs)

lemma validate_book_car_sample:
  "validate_book_car sample_env (car_slots ''Boston'' ''2024-05-02'' ''2024-05-05'' ''30'')
     = Inr \<lparr>isValid = True, violatedSlot = None, message = None\<rparr>"
  by (simp add: validate_book_car_def car_checks_def returns_eq sample_defs check_defs string_defs
        date_defs ordinal_defs)

lemma generate_car_price_Boston: "generate_car_price ''Boston'' 3 30 ''economy'' = Inr (VInt 537)"
  by (simp add: generate_car_price_def car_types_def string_defs)

lemma book_car_sample:
  "book_car sample_env (example_request ''BookCar'' ''None'' ''DialogCodeHook''
        (car_slots ''Boston'' ''2024-05-02'' ''2024-05-05'' ''30''))
     = Inr (Some (delegate [''channel'' \<mapsto> VStr ''web'', ''currentReservationPrice'' \<mapsto> VInt 537]
                     Map.empty
                     \<lparr>name = ''BookCar'', state = Some ''InProgress'', confirmationState = ''None'',
                       slots = Some (car_slots ''Boston'' ''2024-05-02'' ''2024-05-05'' ''30'')\<rparr>
                     ''Confirm hotel reservation''))"
proof -
  have d: "get_day_difference sample_env ''2024-05-02'' ''2024-05-05'' = Inr 3"
    by (simp add: sample_defs string_defs date_defs ordinal_defs)
  have a: "safe_int (Some ''30'') = Inr (Some 30)"
    by (simp add: safe_int_def string_defs)
  show ?thesis
    using validate_book_car_sample d a generate_car_price_Boston
    by (simp add: book_car_eq [where sl = "car_slots ''Boston'' ''2024-05-02'' ''2024-05-05'' ''30''"
                        and ?s1.0 = "scalar_slot ''Boston''" and ?s2.0 = "scalar_slot ''2024-05-02''"
                        and ?s3.0 = "scalar_slot ''2024-05-05''" and ?s4.0 = "scalar_slot ''30''"
                        and ?s5.0 = "scalar_slot ''economy''"]
          car_reservation_def example_request_def car_slots_def scalar_slot_def try_ex_def Let_def)
qed

lemma book_hotel_sample:
  "book_hotel sample_env (example_request ''BookHotel'' ''None'' ''DialogCodeHook'' (hotel_slots ''2024-05-01''))
     = Inr (Some (delegate [''sessionId'' \<mapsto> VStr ''session-1'', ''currentReservationPrice'' \<mapsto> VInt 720]
                     [''ReservationType'' \<mapsto> VStr ''Hotel'', ''Location'' \<mapsto> VStr ''Chicago'',
                      ''RoomType'' \<mapsto> VStr ''King'', ''CheckInDate'' \<mapsto> VStr ''2024-05-01'',
                      ''Nights'' \<mapsto> VInt 3]
                     \<lparr>name = ''BookHotel'', state = Some ''InProgress'', confirmationState = ''None'',
                       slots = Some (hotel_slots ''2024-05-01'')\<rparr>
                     ''Confirm hotel reservation''))"
proof -
  have a: "safe_int (Some ''3'') = Inr (Some 3)"
    by (simp add: safe_int_def string_defs)
  have p: "generate_hotel_price ''Chicago'' 3 ''King'' = Inr 720"
    by (simp add: generate_hotel_price_spec hotel_price_Chicago)
  show ?thesis
    using validate_hotel_sample a p
    by (simp add: book_hotel_eq [where sl = "hotel_slots ''2024-05-01''"]
          hotel_reservation_def example_request_def hotel_slots_def scalar_slot_def try_ex_def Let_def)
qed

lemma validate_book_car_sample_paris:
  "validate_book_car sample_env (car_slots ''Paris'' ''2024-05-02'' ''2024-05-05'' ''17'')
     = Inr (build_validation_result False ''PickUpCity'' (unsupported_city ''Paris''))"
  by (simp add: validate_book_car_def car_checks_def returns_eq sample_defs check_defs string_defs
        date_defs ordinal_defs)

lemma add_days_sample: "add_days sample_env ''2024-05-01'' 4 = Inr ''2024-05-05''"
  by (simp add: add_days_def sample_defs string_defs date_defs ordinal_defs max_ordinal_def
        fromordinal_def strftime_ymd_def show_2_def show_nat.simps digit_char_def Let_def)

section \<open>Claims\<close>

subsection \<open>C1: dates that the parser accepts and strptime does not\<close>

text \<open>
  C1 does not hold of the code. The date '2030/05/01' is accepted by the date parser,
  so \<open>isvalid_date\<close> answers True; the future-date check then reads the same string
  with \<open>strptime(..., '%Y-%m-%d')\<close>, which raises ValueError, and nothing catches
  it: the hotel validator and the car validator both raise instead of reporting the
  date slot.
\<close>

theorem validators_reparse_raises:
  "isvalid_date sample_env ''2030/05/01'' = Inr True
   \<and> validate_hotel sample_env (hotel_slots ''2030/05/01'') = Inl ValueError
   \<and> validate_book_car sample_env (car_slots ''Boston'' ''2030/05/01'' ''2030/05/04'' ''30'')
       = Inl ValueError"
  by (simp add: validate_hotel_def hotel_checks_def validate_book_car_def car_checks_def returns_eq
        sample_defs check_defs string_defs date_defs)

subsection \<open>C2: a driver aged 17\<close>

text \<open>
  C2, as the code has it. For every car-booking turn on a DialogCodeHook pass whose
  DriverAge slot holds 17 and whose confirmation state is not 'Denied', in which the
  checks that come before the driver's age pass (the pickup city is absent, empty or
  supported; the pickup date is accepted by the parser, is in YYYY-MM-DD form and is
  after today; the return date is accepted by the parser, is after the pickup date and
  at most thirty days from it), the car handler emits an ElicitSlot directive for
  DriverAge, whatever the car type is.
\<close>

theorem book_car_driver_age_17:
  assumes "slots (intent (sessionState req)) = Some sl"
    and "invocationSource req = ''DialogCodeHook''"
    and "confirmationState (intent (sessionState req)) \<noteq> ''Denied''"
    and "sl ''PickUpCity'' = Some s1"
    and "\<not> (truthy (try_ex s1) \<and> \<not> isvalid_city (str_of (try_ex s1)))"
    and "sl ''PickUpDate'' = Some (Some v2)" and "parse E (interpretedValue v2) = Inr p"
    and "strptime_ymd (interpretedValue v2) = Some d" and "\<not> date_le d (today E)"
    and "sl ''ReturnDate'' = Some (Some v3)" and "interpretedValue v3 \<noteq> []"
    and "parse E (interpretedValue v3) = Inr r"
    and "datetime_ge p r = Inr False"
    and "\<bar>int (toordinal (dt_date p)) - int (toordinal (dt_date r))\<bar> \<le> 30"
    and "sl ''DriverAge'' = Some (Some v4)" and "py_int (interpretedValue v4) = Some 17"
    and "sl ''CarType'' = Some s5"
  shows "directive_of (book_car E req) = Inr (Some (ElicitSlot ''DriverAge''))"
proof -
  let ?msg = "''Your driver must be at least eighteen to rent a car.  Can you provide the age of a different driver?''"
  have ne: "interpretedValue v2 \<noteq> []"
    using assms(8) by (rule strptime_ymd_nonempty)
  have ds: "date_stage E True (Some (interpretedValue v2)) ''PickUpDate''
          ''I did not understand your departure date.  When would you like to pick up your car rental?''
            = Inr None"
    using assms(7,8,9) by (simp add: date_stage_None)
  have iv: "isvalid_date E (interpretedValue v3) = Inr True"
    using assms(12) by (simp add: isvalid_date_True)
  have dd: "get_day_difference E (interpretedValue v2) (interpretedValue v3)
              = Inr \<bar>int (toordinal (dt_date p)) - int (toordinal (dt_date r))\<bar>"
    using assms(7,12) by (rule get_day_difference_Inr)
  have "car_checks E (try_ex s1) (Some (interpretedValue v2)) (Some (interpretedValue v3))
          (Some 17) (try_ex s5) = Inr (build_validation_result False ''DriverAge'' ?msg)"
    using assms(5,7,11,12,13,14) ne ds iv dd
    by (auto simp add: car_checks_def returns_def)
  then have v: "validate_book_car E sl = Inr (build_validation_result False ''DriverAge'' ?msg)"
    using assms(4,6,10,15,16,17) by (simp add: validate_book_car_def try_ex_def safe_int_def)
  show ?thesis
    using book_car_eq [OF assms(1,4,6,10,15,17), of E] assms(2,3) v
    by (simp add: directive_of_def elicit_slot_def build_validation_result_def Let_def)
qed

theorem book_car_driver_age_17_witness:
  "directive_of (book_car sample_env (example_request ''BookCar'' ''None'' ''DialogCodeHook''
        (car_slots ''Boston'' ''2024-05-02'' ''2024-05-05'' ''17'')))
     = Inr (Some (ElicitSlot ''DriverAge''))"
  using book_car_driver_age_17
    [where req = "example_request ''BookCar'' ''None'' ''DialogCodeHook''
                    (car_slots ''Boston'' ''2024-05-02'' ''2024-05-05'' ''17'')"
       and sl = "car_slots ''Boston'' ''2024-05-02'' ''2024-05-05'' ''17''" and E = sample_env
       and ?s1.0 = "scalar_slot ''Boston''" and ?v2.0 = "the (scalar_slot ''2024-05-02'')"
       and ?v3.0 = "the (scalar_slot ''2024-05-05'')" and ?v4.0 = "the (scalar_slot ''17'')"
       and ?s5.0 = "scalar_slot ''economy''"
       and p = "midnight \<lparr>year = 2024, month = 5, day = 2\<rparr>"
       and r = "midnight \<lparr>year = 2024, month = 5, day = 5\<rparr>"
       and d = "\<lparr>year = 2024, month = 5, day = 2\<rparr>"]
  by (simp add: sample_defs check_defs string_defs date_defs ordinal_defs)

text \<open>
  C2 as stated fails when an earlier check fails: with DriverAge 17 and the
  unsupported city 'Paris', the directive elicits PickUpCity.
\<close>

theorem book_car_driver_age_17_counterexample:
  "directive_of (book_car sample_env (example_request ''BookCar'' ''None'' ''DialogCodeHook''
        (car_slots ''Paris'' ''2024-05-02'' ''2024-05-05'' ''17'')))
     = Inr (Some (ElicitSlot ''PickUpCity''))"
  using validate_book_car_sample_paris
  by (simp add: book_car_eq [where sl = "car_slots ''Paris'' ''2024-05-02'' ''2024-05-05'' ''17''"
                        and ?s1.0 = "scalar_slot ''Paris''" and ?s2.0 = "scalar_slot ''2024-05-02''"
                        and ?s3.0 = "scalar_slot ''2024-05-05''" and ?s4.0 = "scalar_slot ''17''"
                        and ?s5.0 = "scalar_slot ''economy''"]
        directive_of_def elicit_slot_def build_validation_result_def
        example_request_def car_slots_def Let_def)

subsection \<open>C3: unsupported intent names\<close>

text \<open>
  C3, as the code has it. For every turn payload whose intent name is neither
  'BookHotel' nor 'BookCar' and whose slots hold a Location or a PickUpCity entry
  that is not None, the dispatcher raises the exception "Intent with name ... not
  supported", and no directive is returned.
\<close>

theorem dispatch_unsupported_intent:
  assumes "slots (intent (sessionState req)) = Some sl"
    and "slot_or_none sl ''Location'' \<noteq> None \<or> slot_or_none sl ''PickUpCity'' \<noteq> None"
    and "name (intent (sessionState req)) \<noteq> ''BookHotel''"
    and "name (intent (sessionState req)) \<noteq> ''BookCar''"
  shows "dispatch E req =
           Inl (Exception (''Intent with name '' @ name (intent (sessionState req)) @ '' not supported''))"
  using assms by (simp add: dispatch_def get_slots_def)

theorem dispatch_unsupported_intent_witness:
  "dispatch sample_env (example_request ''BookFlight'' ''None'' ''DialogCodeHook''
       [''Location'' \<mapsto> scalar_slot ''Chicago''])
     = Inl (Exception ''Intent with name BookFlight not supported'')"
  using dispatch_unsupported_intent
    [of "example_request ''BookFlight'' ''None'' ''DialogCodeHook'' [''Location'' \<mapsto> scalar_slot ''Chicago'']"
        "[''Location'' \<mapsto> scalar_slot ''Chicago'']" sample_env]
  by (simp add: example_request_def slot_or_none_def scalar_slot_def)

text \<open>
  C3 as stated fails on the first turn of a conversation: with no Location and no
  PickUpCity slot and no active context, the unsupported name 'BookFlight' gets the
  initial directive, which elicits PickUpCity.
\<close>

theorem dispatch_unsupported_intent_counterexample:
  "dispatch sample_env (example_request ''BookFlight'' ''None'' ''DialogCodeHook'' Map.empty)
     = Inr (Some (initial_message ''BookFlight''))"
  by (simp add: dispatch_def get_slots_def example_request_def slot_or_none_def)

subsection \<open>C4: the rank of a car type\<close>

text \<open>
  C4 does not hold of the code. The car type 'Luxury' is valid, and case-insensitively
  it has rank 5 in the base enumeration; but \<open>generate_car_price\<close> tests membership
  in the enumeration without lowering the case, takes 'Luxury' for absent, and prices it
  with rank 0: 139 for one day in Chicago at age 30, where 'luxury' costs 389.
\<close>

theorem generate_car_price_capitalised:
  "isvalid_car_type ''Luxury'' \<and> car_type_rank_spec ''Luxury'' = 5
   \<and> generate_car_price ''Chicago'' 1 30 ''Luxury'' = Inr (VInt 139)
   \<and> generate_car_price ''Chicago'' 1 30 ''luxury'' = Inr (VInt 389)"
  by (simp add: isvalid_car_type_def car_type_rank_spec_def generate_car_price_def car_types_def
        string_defs)

subsection \<open>C5: a return date that is not after the pickup date\<close>

text \<open>
  C5, as the code has it. For every car slots mapping with the five slot keys and a
  DriverAge that is absent or an integer, in which the pickup city is absent, empty or
  supported, the pickup date is accepted by the parser, is in YYYY-MM-DD form and is
  after today, and the return date is accepted by the parser and is, as a datetime, not
  after the pickup date, the car validator reports ReturnDate as the violated slot,
  whatever the driver age and the car type are.
\<close>

theorem validate_book_car_return_not_after:
  assumes "sl ''PickUpCity'' = Some s1" and "sl ''PickUpDate'' = Some (Some v2)"
    and "sl ''ReturnDate'' = Some (Some v3)" and "sl ''DriverAge'' = Some s4"
    and "sl ''CarType'' = Some s5"
    and "safe_int (try_ex s4) = Inr age"
    and "\<not> (truthy (try_ex s1) \<and> \<not> isvalid_city (str_of (try_ex s1)))"
    and "parse E (interpretedValue v2) = Inr p"
    and "strptime_ymd (interpretedValue v2) = Some d" and "\<not> date_le d (today E)"
    and "interpretedValue v3 \<noteq> []"
    and "parse E (interpretedValue v3) = Inr r"
    and "datetime_ge p r = Inr True"
  shows "validate_book_car E sl =
           Inr (build_validation_result False ''ReturnDate''
                  ''Your return date must be after your pick up date.  Can you try a different return date?'')"
proof -
  have ne: "interpretedValue v2 \<noteq> []"
    using assms(9) by (rule strptime_ymd_nonempty)
  have ds: "date_stage E True (Some (interpretedValue v2)) ''PickUpDate''
          ''I did not understand your departure date.  When would you like to pick up your car rental?''
            = Inr None"
    using assms(8,9,10) by (simp add: date_stage_None)
  have iv: "isvalid_date E (interpretedValue v3) = Inr True"
    using assms(12) by (simp add: isvalid_date_True)
  have "car_checks E (try_ex s1) (Some (interpretedValue v2)) (Some (interpretedValue v3)) age (try_ex s5)
          = Inr (build_validation_result False ''ReturnDate''
                  ''Your return date must be after your pick up date.  Can you try a different return date?'')"
    using assms(7,8,11,12,13) ne ds iv
    by (auto simp add: car_checks_def returns_def)
  then show ?thesis
    using assms(1-6) by (simp add: validate_book_car_def try_ex_def)
qed

theorem validate_book_car_return_not_after_witness:
  "validate_book_car sample_env (car_slots ''Boston'' ''2030-05-02'' ''2030-05-01'' ''17'')
     = Inr (build_validation_result False ''ReturnDate''
              ''Your return date must be after your pick up date.  Can you try a different return date?'')"
  using validate_book_car_return_not_after
    [where sl = "car_slots ''Boston'' ''2030-05-02'' ''2030-05-01'' ''17''" and E = sample_env
       and ?s1.0 = "scalar_slot ''Boston''" and ?v2.0 = "the (scalar_slot ''2030-05-02'')"
       and ?v3.0 = "the (scalar_slot ''2030-05-01'')" and ?s4.0 = "scalar_slot ''17''"
       and ?s5.0 = "scalar_slot ''economy''" and age = "Some 17"
       and p = "midnight \<lparr>year = 2030, month = 5, day = 2\<rparr>"
       and r = "midnight \<lparr>year = 2030, month = 5, day = 1\<rparr>"
       and d = "\<lparr>year = 2030, month = 5, day = 2\<rparr>"]
  by (simp add: sample_defs check_defs string_defs date_defs datetime_ge_def dt_micros_def
        toordinal_def days_before_year_def days_before_month_def days_before_month_tab_def)

text \<open>
  C5 as stated fails when an earlier check fails: with the unsupported city 'Paris',
  pickup 2030-05-02 and return 2030-05-01, the violated slot is PickUpCity.
\<close>

theorem validate_book_car_return_not_after_counterexample:
  "violated_of (validate_book_car sample_env (car_slots ''Paris'' ''2030-05-02'' ''2030-05-01'' ''30''))
     = Inr (Some ''PickUpCity'')"
  by (simp add: violated_of_def validate_book_car_def car_checks_def returns_eq
        sample_defs check_defs string_defs date_defs)

subsection \<open>C6: validation failures become ElicitSlot directives\<close>

text \<open>
  C6, as the code has it. Every validation failure that the hotel handler finds, and
  every one that the car handler finds on a DialogCodeHook pass, is surfaced as an
  ElicitSlot directive. The directive names the violated slot, except that the car
  handler names PickUpCity for a DriverAge violation when the confirmation state is
  'Denied'.
\<close>

theorem validation_failure_elicits:
  assumes "slots (intent (sessionState req)) = Some sl"
  shows "(validate_hotel E sl = Inr vr \<and> \<not> isValid vr \<longrightarrow>
            (\<exists>v. violatedSlot vr = Some v
               \<and> directive_of (book_hotel E req) = Inr (Some (ElicitSlot v))))
       \<and> (invocationSource req = ''DialogCodeHook''
            \<and> validate_book_car E sl = Inr vr' \<and> \<not> isValid vr' \<longrightarrow>
            (\<exists>v. violatedSlot vr' = Some v
               \<and> directive_of (book_car E req) =
                   Inr (Some (ElicitSlot
                     (if v = ''DriverAge'' \<and> confirmationState (intent (sessionState req)) = ''Denied''
                      then ''PickUpCity'' else v)))))"
proof (intro conjI impI)
  assume "validate_hotel E sl = Inr vr \<and> \<not> isValid vr"
  then have vr: "validate_hotel E sl = Inr vr" and inv: "\<not> isValid vr"
    by simp_all
  from validate_hotel_invalid [OF vr inv] obtain v m where
    vm: "violatedSlot vr = Some v" "message vr = Some m"
    by blast
  with book_hotel_eq [OF assms vr] assms inv
  have "directive_of (book_hotel E req) = Inr (Some (ElicitSlot v))"
    by (simp add: directive_of_def elicit_slot_def)
  with vm show "\<exists>v. violatedSlot vr = Some v
               \<and> directive_of (book_hotel E req) = Inr (Some (ElicitSlot v))"
    by blast
next
  assume "invocationSource req = ''DialogCodeHook''
            \<and> validate_book_car E sl = Inr vr' \<and> \<not> isValid vr'"
  then have src: "invocationSource req = ''DialogCodeHook''"
    and vr: "validate_book_car E sl = Inr vr'" and inv: "\<not> isValid vr'"
    by simp_all
  from vr obtain s1 s2 s3 s4 s5 where
    k: "sl ''PickUpCity'' = Some s1" "sl ''PickUpDate'' = Some s2"
       "sl ''ReturnDate'' = Some s3" "sl ''DriverAge'' = Some s4" "sl ''CarType'' = Some s5"
    unfolding validate_book_car_Inr by blast
  from validate_book_car_invalid [OF vr inv] obtain v m where
    vm: "violatedSlot vr' = Some v" "message vr' = Some m"
    by blast
  with book_car_eq [OF assms k, of E] src vr inv
  have "directive_of (book_car E req) =
          Inr (Some (ElicitSlot
            (if v = ''DriverAge'' \<and> confirmationState (intent (sessionState req)) = ''Denied''
             then ''PickUpCity'' else v)))"
    by (simp add: directive_of_def elicit_slot_def Let_def)
  with vm show "\<exists>v. violatedSlot vr' = Some v
               \<and> directive_of (book_car E req) =
                   Inr (Some (ElicitSlot
                     (if v = ''DriverAge'' \<and> confirmationState (intent (sessionState req)) = ''Denied''
                      then ''PickUpCity'' else v)))"
    by blast
qed

theorem validation_failure_elicits_witness:
  "directive_of (book_hotel sample_env
       (example_request ''BookHotel'' ''None'' ''DialogCodeHook'' (hotel_slots ''2024-04-30'')))
     = Inr (Some (ElicitSlot ''CheckInDate''))
   \<and> directive_of (book_car sample_env
       (example_request ''BookCar'' ''None'' ''DialogCodeHook'' (car_slots ''Boston'' ''2024-05-02'' ''2024-05-05'' ''17'')))
     = Inr (Some (ElicitSlot ''DriverAge''))"
  using validation_failure_elicits
    [where req = "example_request ''BookHotel'' ''None'' ''DialogCodeHook'' (hotel_slots ''2024-04-30'')"
       and sl = "hotel_slots ''2024-04-30''" and E = sample_env
       and vr = "build_validation_result False ''CheckInDate''
                   ''Reservations must be scheduled at least one day in advance.  Can you try a different date?''"
       and vr' = "\<lparr>isValid = True, violatedSlot = None, message = None\<rparr>"]
    validation_failure_elicits
    [where req = "example_request ''BookCar'' ''None'' ''DialogCodeHook'' (car_slots ''Boston'' ''2024-05-02'' ''2024-05-05'' ''17'')"
       and sl = "(car_slots ''Boston'' ''2024-05-02'' ''2024-05-05'' ''17'')" and E = sample_env
       and vr = "\<lparr>isValid = True, violatedSlot = None, message = None\<rparr>"
       and vr' = "build_validation_result False ''DriverAge''
                    ''Your driver must be at least eighteen to rent a car.  Can you provide the age of a different driver?''"]
    validate_hotel_sample_today validate_book_car_sample_17
  by (simp add: example_request_def build_validation_result_def)

text \<open>
  C6 as stated fails for a driver aged 17 when the confirmation state is 'Denied': the
  validator reports DriverAge, the directive elicits PickUpCity, and the response has
  no messages entry.
\<close>

theorem validation_failure_elicits_counterexample:
  "violated_of (validate_book_car sample_env (car_slots ''Boston'' ''2024-05-02'' ''2024-05-05'' ''17'')) = Inr (Some ''DriverAge'')
   \<and> directive_of (book_car sample_env
        (example_request ''BookCar'' ''Denied'' ''DialogCodeHook'' (car_slots ''Boston'' ''2024-05-02'' ''2024-05-05'' ''17'')))
       = Inr (Some (ElicitSlot ''PickUpCity''))
   \<and> messages_of (book_car sample_env
        (example_request ''BookCar'' ''Denied'' ''DialogCodeHook'' (car_slots ''Boston'' ''2024-05-02'' ''2024-05-05'' ''17'')))
       = Inr (Some None)"
  using validate_book_car_sample_17
  by (simp add: book_car_eq [where sl = "(car_slots ''Boston'' ''2024-05-02'' ''2024-05-05'' ''17'')"
                        and ?s1.0 = "scalar_slot ''Boston''" and ?s2.0 = "scalar_slot ''2024-05-02''"
                        and ?s3.0 = "scalar_slot ''2024-05-05''" and ?s4.0 = "scalar_slot ''17''"
                        and ?s5.0 = "scalar_slot ''economy''"]
        violated_of_def directive_of_def messages_of_def elicit_slot_def build_validation_result_def
        example_request_def car_slots_def Let_def)

subsection \<open>C7: the price of the Chicago booking\<close>

text \<open>
  C7. For a hotel turn with slots Location = 'Chicago', CheckInDate = tomorrow (a
  string the date parser accepts and that reads as tomorrow's date in YYYY-MM-DD form),
  Nights = 3, RoomType = 'King' and confirmationState 'None', the hotel handler returns
  a Delegate directive whose session attributes are the sessionId and a
  currentReservationPrice equal to the specification's hotel_price('Chicago', 3, 'King').
\<close>

theorem book_hotel_chicago_delegate:
  assumes "slots (intent (sessionState req)) = Some sl"
    and "sl ''Location'' = Some (Some v1)" and "interpretedValue v1 = ''Chicago''"
    and "sl ''CheckInDate'' = Some (Some v2)"
    and "parse E (interpretedValue v2) = Inr dt"
    and "strptime_ymd (interpretedValue v2) = Some (tomorrow (today E))"
    and "sl ''Nights'' = Some (Some v3)" and "py_int (interpretedValue v3) = Some 3"
    and "sl ''RoomType'' = Some (Some v4)" and "interpretedValue v4 = ''King''"
    and "confirmationState (intent (sessionState req)) = ''None''"
  shows "\<exists>r p. book_hotel E req = Inr (Some r) \<and> dialogAction r = Delegate
           \<and> hotel_price_spec ''Chicago'' 3 ''King'' = Some p
           \<and> r_sessionAttributes r = Some [''sessionId'' \<mapsto> VStr (sessionId req),
                                            ''currentReservationPrice'' \<mapsto> VInt p]"
proof -
  have ne: "interpretedValue v2 \<noteq> []"
    using assms(6) by (rule strptime_ymd_nonempty)
  have ds: "date_stage E True (Some (interpretedValue v2)) ''CheckInDate''
               ''I did not understand your check in date.  When would you like to check in?'' = Inr None"
    using assms(5,6) by (simp add: date_stage_None str_of_def tomorrow_after)
  have city: "isvalid_city ''Chicago''"
    by (simp add: isvalid_city_def lower_Chicago valid_cities_def)
  have room: "isvalid_room_type ''King''"
    by (simp add: isvalid_room_type_def lower_King room_types_def)
  have hc: "hotel_checks E (Some ''Chicago'') (Some (interpretedValue v2)) (Some 3) (Some ''King'')
              = Inr \<lparr>isValid = True, violatedSlot = None, message = None\<rparr>"
    using ds city room by (simp add: hotel_checks_def str_of_def)
  have v: "validate_hotel E sl = Inr \<lparr>isValid = True, violatedSlot = None, message = None\<rparr>"
    using assms hc by (simp add: validate_hotel_def try_ex_def safe_int_def)
  have p: "generate_hotel_price ''Chicago'' 3 ''King'' = Inr 720"
    by (simp add: generate_hotel_price_spec hotel_price_Chicago)
  have "book_hotel E req = Inr (Some (delegate
          [''sessionId'' \<mapsto> VStr (sessionId req), ''currentReservationPrice'' \<mapsto> VInt 720]
          [''ReservationType'' \<mapsto> VStr ''Hotel'', ''Location'' \<mapsto> VStr ''Chicago'',
           ''RoomType'' \<mapsto> VStr ''King'', ''CheckInDate'' \<mapsto> VStr (interpretedValue v2),
           ''Nights'' \<mapsto> VInt 3]
          (intent (sessionState req)) ''Confirm hotel reservation''))"
    using book_hotel_priced [OF assms(1) v _ assms(2,4,7,9), of 3 720] assms(3,8,10,11) ne p
    by (simp add: try_ex_def safe_int_def truthy_def str_of_def)
  then show ?thesis
    by (simp add: delegate_def hotel_price_Chicago)
qed

theorem book_hotel_chicago_delegate_witness:
  "\<exists>r. book_hotel sample_env
          (example_request ''BookHotel'' ''None'' ''DialogCodeHook'' (hotel_slots ''2024-05-01''))
        = Inr (Some r)
      \<and> dialogAction r = Delegate
      \<and> r_sessionAttributes r = Some [''sessionId'' \<mapsto> VStr ''session-1'',
                                       ''currentReservationPrice'' \<mapsto> VInt 720]"
  using book_hotel_chicago_delegate
    [where req = "example_request ''BookHotel'' ''None'' ''DialogCodeHook'' (hotel_slots ''2024-05-01'')"
       and sl = "hotel_slots ''2024-05-01''" and E = sample_env
       and ?v1.0 = "the (scalar_slot ''Chicago'')" and ?v2.0 = "the (scalar_slot ''2024-05-01'')"
       and ?v3.0 = "the (scalar_slot ''3'')" and ?v4.0 = "the (scalar_slot ''King'')"
       and dt = "midnight \<lparr>year = 2024, month = 5, day = 1\<rparr>"]
  by (simp add: sample_defs string_defs date_defs tomorrow_def hotel_price_Chicago)

subsection \<open>C8: the confirmed hotel booking\<close>

text \<open>
  C8. For every hotel turn whose slots are all present and valid (the validator
  passes and Location is there) and whose confirmationState is 'Confirmed', the hotel
  handler returns a Close directive, and the returned intent has state 'Fulfilled'
  and confirmationState 'Confirmed'.
\<close>

theorem book_hotel_confirmed_close:
  assumes "slots (intent (sessionState req)) = Some sl"
    and "validate_hotel E sl = Inr vr" and "isValid vr"
    and "sl ''Location'' \<noteq> Some None"
    and "confirmationState (intent (sessionState req)) = ''Confirmed''"
  shows "\<exists>r. book_hotel E req = Inr (Some r) \<and> dialogAction r = Close
           \<and> state (r_intent r) = Some ''Fulfilled''
           \<and> confirmationState (r_intent r) = ''Confirmed''"
proof -
  from validate_hotel_valid [OF assms(2,3)] obtain s1 s2 s3 s4 n i where
    k: "sl ''Location'' = Some s1" "sl ''CheckInDate'' = Some s2"
       "sl ''Nights'' = Some s3" "sl ''RoomType'' = Some s4"
    and n: "safe_int (try_ex s3) = Inr (Some n)" "1 \<le> n" "n \<le> 30"
    and c: "s1 = None \<or> isvalid_city (str_of (try_ex s1))"
    and t: "truthy (try_ex s2)" "truthy (try_ex s4)"
    and i: "index_of room_types (lower (str_of (try_ex s4))) = Some i"
    by blast
  from c k(1) assms(4) have "isvalid_city (str_of (try_ex s1))" and "s1 \<noteq> None"
    by auto
  then have t1: "truthy (try_ex s1)"
    by (auto simp: truthy_def str_of_def try_ex_def dest: isvalid_city_nonempty split: option.splits)
  obtain p where p: "generate_hotel_price (str_of (try_ex s1)) n (str_of (try_ex s4)) = Inr p"
    using i by (simp add: generate_hotel_price_def)
  from n(2) have "n \<noteq> 0" by simp
  from book_hotel_priced [OF assms(1,2,3) k n(1) this t1 t p] assms(5)
  show ?thesis
    by (simp add: close_def Let_def)
qed

theorem book_hotel_confirmed_close_witness:
  "\<exists>r. book_hotel sample_env
          (example_request ''BookHotel'' ''Confirmed'' ''DialogCodeHook'' (hotel_slots ''2024-05-01''))
        = Inr (Some r)
      \<and> dialogAction r = Close
      \<and> state (r_intent r) = Some ''Fulfilled''
      \<and> confirmationState (r_intent r) = ''Confirmed''"
  using book_hotel_confirmed_close
    [where req = "example_request ''BookHotel'' ''Confirmed'' ''DialogCodeHook'' (hotel_slots ''2024-05-01'')"
       and sl = "hotel_slots ''2024-05-01''" and E = sample_env
       and vr = "\<lparr>isValid = True, violatedSlot = None, message = None\<rparr>"]
    validate_hotel_sample
  by (simp add: example_request_def hotel_slots_def scalar_slot_def)

subsection \<open>C9: the suggestion carried over from a hotel booking\<close>

text \<open>
  C9, as the code has it. For every turn whose slots hold neither a Location nor a
  PickUpCity entry other than None, whose session state has session attributes, and
  whose first active context carries a Location, a CheckInDate and an integer Nights
  for which \<open>add_days\<close> returns a date, the dispatcher returns a ConfirmIntent directive
  whose intent slots are PickUpCity = Location, PickUpDate = CheckInDate and
  ReturnDate = add_days(CheckInDate, Nights), and whose active context is that context
  with its turns-to-live set to 20.
\<close>

theorem dispatch_context_carryover:
  assumes "slots (intent (sessionState req)) = Some sl"
    and "slot_or_none sl ''Location'' = None" and "slot_or_none sl ''PickUpCity'' = None"
    and "activeContexts (sessionState req) = Some (ctx # others)"
    and "sessionAttributes (sessionState req) = Some sa"
    and "contextAttributes ctx ''Location'' = Some loc"
    and "contextAttributes ctx ''CheckInDate'' = Some checkin"
    and "contextAttributes ctx ''Nights'' = Some nights" and "py_int nights = Some n"
    and "add_days E checkin n = Inr return_date"
  shows "\<exists>r. dispatch E req = Inr (Some r) \<and> dialogAction r = ConfirmIntent
           \<and> slots (r_intent r) = Some [''PickUpCity'' \<mapsto> scalar_slot loc,
                                        ''PickUpDate'' \<mapsto> scalar_slot checkin,
                                        ''ReturnDate'' \<mapsto> scalar_slot return_date]
           \<and> r_activeContexts r =
               Some [\<lparr>ctx_name = ctx_name ctx,
                      contextAttributes = map_option VStr \<circ> contextAttributes ctx,
                      timeToLive = (timeToLive ctx)\<lparr>turnsToLive := 20\<rparr>\<rparr>]"
  using assms by (simp add: dispatch_def get_slots_def safe_int_def confirm_intent_def)

theorem dispatch_context_carryover_witness:
  "\<exists>r. dispatch sample_env
          (with_contexts [boston_context]
             (example_request ''BookCar'' ''None'' ''DialogCodeHook'' Map.empty)) = Inr (Some r)
      \<and> dialogAction r = ConfirmIntent
      \<and> slots (r_intent r) = Some [''PickUpCity'' \<mapsto> scalar_slot ''Boston'',
                                   ''PickUpDate'' \<mapsto> scalar_slot ''2024-05-01'',
                                   ''ReturnDate'' \<mapsto> scalar_slot ''2024-05-05'']
      \<and> map (\<lambda>c. turnsToLive (timeToLive c)) (the (r_activeContexts r)) = [20]"
  using dispatch_context_carryover
    [where req = "with_contexts [boston_context]
                    (example_request ''BookCar'' ''None'' ''DialogCodeHook'' Map.empty)"
       and sl = Map.empty and E = sample_env and ctx = boston_context and others = "[]"
       and sa = "[''channel'' \<mapsto> VStr ''web'']" and loc = "''Boston''"
       and checkin = "''2024-05-01''" and nights = "''4''" and n = 4
       and return_date = "''2024-05-05''"]
    add_days_sample
  by (auto simp add: with_contexts_def boston_context_def example_request_def slot_or_none_def
        string_defs)

text \<open>
  C9 as stated fails for an active context without attributes, such as the context of
  the handlers' own directives: reading CheckInDate raises KeyError.
\<close>

theorem dispatch_context_carryover_counterexample:
  "dispatch sample_env
     (with_contexts [empty_context]
        (example_request ''BookCar'' ''None'' ''DialogCodeHook'' Map.empty)) = Inl KeyError"
  by (simp add: dispatch_def get_slots_def with_contexts_def empty_context_def example_request_def
        slot_or_none_def getitem_def)

subsection \<open>C10: the session attributes of the two handlers\<close>

text \<open>
  C10. Every directive that the hotel handler returns carries session attributes
  that consist of exactly the payload's sessionId, plus currentReservationPrice when
  the slots were valid (the directive is then not an ElicitSlot); the session
  attributes of the payload are not in them. Every directive that the car handler
  returns carries the payload's session attributes (none when the payload has none),
  with currentReservationPrice added unless the directive is an ElicitSlot.
\<close>

theorem handler_session_attributes:
  "(book_hotel E req = Inr (Some r) \<longrightarrow>
      (case dialogAction r of
         ElicitSlot _ \<Rightarrow> r_sessionAttributes r = Some [''sessionId'' \<mapsto> VStr (sessionId req)]
       | _ \<Rightarrow> \<exists>p. r_sessionAttributes r =
                  Some [''sessionId'' \<mapsto> VStr (sessionId req),
                        ''currentReservationPrice'' \<mapsto> VInt p]))
   \<and> (book_car E req = Inr (Some r') \<longrightarrow>
      (let incoming = (case sessionAttributes (sessionState req) of
                         None \<Rightarrow> Map.empty | Some a \<Rightarrow> a)
       in case dialogAction r' of
            ElicitSlot _ \<Rightarrow> r_sessionAttributes r' = Some incoming
          | _ \<Rightarrow> \<exists>p. r_sessionAttributes r' =
                     Some (incoming(''currentReservationPrice'' \<mapsto> p))))"
proof (intro conjI impI)
  assume h: "book_hotel E req = Inr (Some r)"
  from book_hotel_Inr_D [OF h] obtain sl vr where
    sl: "slots (intent (sessionState req)) = Some sl" and vr: "validate_hotel E sl = Inr vr"
    by blast
  show "case dialogAction r of
         ElicitSlot _ \<Rightarrow> r_sessionAttributes r = Some [''sessionId'' \<mapsto> VStr (sessionId req)]
       | _ \<Rightarrow> \<exists>p. r_sessionAttributes r =
                  Some [''sessionId'' \<mapsto> VStr (sessionId req),
                        ''currentReservationPrice'' \<mapsto> VInt p]"
  proof (cases "isValid vr")
    case True
    with h book_hotel_eq [OF sl vr] have "hotel_reservation req sl = Inr (Some r)"
      by simp
    from hotel_reservation_attrs [OF this] show ?thesis
      by auto
  next
    case False
    from validate_hotel_invalid [OF vr False] obtain v m where
      "violatedSlot vr = Some v" and "message vr = Some m"
      by blast
    with h book_hotel_eq [OF sl vr] False show ?thesis
      by (auto simp: elicit_slot_def)
  qed
next
  assume c: "book_car E req = Inr (Some r')"
  let ?sa = "case sessionAttributes (sessionState req) of None \<Rightarrow> Map.empty | Some a \<Rightarrow> a"
  from book_car_Inr_D [OF c] obtain sl s1 s2 s3 s4 s5 where
    k: "slots (intent (sessionState req)) = Some sl"
       "sl ''PickUpCity'' = Some s1" "sl ''PickUpDate'' = Some s2"
       "sl ''ReturnDate'' = Some s3" "sl ''DriverAge'' = Some s4" "sl ''CarType'' = Some s5"
    by blast
  note eq = book_car_eq [OF k, of E]
  have res: "car_reservation E req ?sa (try_ex s1) (try_ex s2) (try_ex s3) (try_ex s4) (try_ex s5)
               = Inr (Some r') \<Longrightarrow>
             case dialogAction r' of
               ElicitSlot _ \<Rightarrow> r_sessionAttributes r' = Some ?sa
             | _ \<Rightarrow> \<exists>p. r_sessionAttributes r' = Some (?sa(''currentReservationPrice'' \<mapsto> p))"
    by (drule car_reservation_attrs) auto
  have "case dialogAction r' of
          ElicitSlot _ \<Rightarrow> r_sessionAttributes r' = Some ?sa
        | _ \<Rightarrow> \<exists>p. r_sessionAttributes r' = Some (?sa(''currentReservationPrice'' \<mapsto> p))"
  proof (cases "invocationSource req = ''DialogCodeHook''")
    case False
    with c eq res show ?thesis
      by (simp add: Let_def)
  next
    case True
    with c eq obtain vr where vr: "validate_book_car E sl = Inr vr"
      by (cases "validate_book_car E sl") (simp_all add: Let_def)
    show ?thesis
    proof (cases "isValid vr")
      case True
      with c eq vr \<open>invocationSource req = ''DialogCodeHook''\<close> res show ?thesis
        by (simp add: Let_def)
    next
      case False
      from validate_book_car_invalid [OF vr False] obtain v m where
        "violatedSlot vr = Some v" and "message vr = Some m"
        by blast
      with c eq vr False \<open>invocationSource req = ''DialogCodeHook''\<close> show ?thesis
        by (auto simp: Let_def elicit_slot_def split: if_splits)
    qed
  qed
  then show "let incoming = ?sa
       in case dialogAction r' of
            ElicitSlot _ \<Rightarrow> r_sessionAttributes r' = Some incoming
          | _ \<Rightarrow> \<exists>p. r_sessionAttributes r' =
                     Some (incoming(''currentReservationPrice'' \<mapsto> p))"
    by (simp add: Let_def)
qed

theorem handler_session_attributes_witness:
  "(\<exists>r. book_hotel sample_env
           (example_request ''BookHotel'' ''None'' ''DialogCodeHook'' (hotel_slots ''2024-05-01''))
         = Inr (Some r)
       \<and> r_sessionAttributes r = Some [''sessionId'' \<mapsto> VStr ''session-1'',
                                        ''currentReservationPrice'' \<mapsto> VInt 720])
   \<and> (\<exists>r. book_car sample_env
           (example_request ''BookCar'' ''None'' ''DialogCodeHook''
              (car_slots ''Boston'' ''2024-05-02'' ''2024-05-05'' ''30''))
         = Inr (Some r)
       \<and> r_sessionAttributes r = Some [''channel'' \<mapsto> VStr ''web'',
                                        ''currentReservationPrice'' \<mapsto> VInt 537])"
  using handler_session_attributes
    [where E = sample_env
       and req = "example_request ''BookHotel'' ''None'' ''DialogCodeHook'' (hotel_slots ''2024-05-01'')"
       and r = "delegate [''sessionId'' \<mapsto> VStr ''session-1'', ''currentReservationPrice'' \<mapsto> VInt 720]
                     [''ReservationType'' \<mapsto> VStr ''Hotel'', ''Location'' \<mapsto> VStr ''Chicago'',
                      ''RoomType'' \<mapsto> VStr ''King'', ''CheckInDate'' \<mapsto> VStr ''2024-05-01'',
                      ''Nights'' \<mapsto> VInt 3]
                     \<lparr>name = ''BookHotel'', state = Some ''InProgress'', confirmationState = ''None'',
                       slots = Some (hotel_slots ''2024-05-01'')\<rparr>
                     ''Confirm hotel reservation''"
       and r' = "initial_message ''BookHotel''"]
    handler_session_attributes
    [where E = sample_env
       and req = "example_request ''BookCar'' ''None'' ''DialogCodeHook''
                    (car_slots ''Boston'' ''2024-05-02'' ''2024-05-05'' ''30'')"
       and r = "initial_message ''BookCar''"
       and r' = "delegate [''channel'' \<mapsto> VStr ''web'', ''currentReservationPrice'' \<mapsto> VInt 537]
                     Map.empty
                     \<lparr>name = ''BookCar'', state = Some ''InProgress'', confirmationState = ''None'',
                       slots = Some (car_slots ''Boston'' ''2024-05-02'' ''2024-05-05'' ''30'')\<rparr>
                     ''Confirm hotel reservation''"]
    book_hotel_sample book_car_sample
  by (simp add: delegate_def)

end
